theory Spec2Isabelle
  imports Main "HOL-Library.Sublist"
begin

section \<open>Strings and numbers of the JavaScript sources\<close>

text \<open>
  JavaScript strings are modelled as \<open>string\<close>, numbers that count bytes, milliseconds
  and retries as \<open>int\<close>. \<open>toLowerCase\<close> is modelled on the ASCII letters, which is all the
  extension tests of the sources look at. Time stamps are kept as the ISO text that
  \<open>toISOString\<close> produced; \<open>new Date(s)\<close> is represented by the text \<open>s\<close> it was built from.
\<close>

definition lower_char :: "char \<Rightarrow> char" where
  "lower_char c =
     (let n = (of_char c :: nat) in if 65 \<le> n \<and> n \<le> 90 then char_of (n + 32) else c)"

definition toLowerCase :: "string \<Rightarrow> string" where
  "toLowerCase s = map lower_char s"

text \<open>\<open>s.endsWith(ext)\<close>.\<close>

definition endsWith :: "string \<Rightarrow> string \<Rightarrow> bool" where
  "endsWith s ext = suffix ext s"

text \<open>\<open>s.lastIndexOf(".")\<close>: the index of the last dot, or \<open>-1\<close>.\<close>

fun lastIndexOf_from :: "char \<Rightarrow> int \<Rightarrow> int \<Rightarrow> string \<Rightarrow> int" where
  "lastIndexOf_from c i found [] = found"
| "lastIndexOf_from c i found (x # xs) =
     lastIndexOf_from c (i + 1) (if x = c then i else found) xs"

definition lastIndexOf :: "string \<Rightarrow> char \<Rightarrow> int" where
  "lastIndexOf s c = lastIndexOf_from c 0 (- 1) s"

text \<open>\<open>s.slice(i)\<close>: a negative start counts from the end.\<close>

definition slice :: "string \<Rightarrow> int \<Rightarrow> string" where
  "slice s i =
     (let n = int (length s) in
      if i < 0 then drop (nat (max (n + i) 0)) s else drop (nat (min i n)) s)"

text \<open>A non-negative integer inside a template literal.\<close>

fun string_of_nat :: "nat \<Rightarrow> string" where
  "string_of_nat n =
     (if n < 10 then [char_of (48 + n)]
      else string_of_nat (n div 10) @ [char_of (48 + n mod 10)])"

definition string_of_int :: "int \<Rightarrow> string" where
  "string_of_int i =
     (if i < 0 then CHR ''-'' # string_of_nat (nat (- i)) else string_of_nat (nat i))"

section \<open>Data model of the web client\<close>

datatype Environment = Local | Production

datatype FileStatus = Pending | Uploaded | Processed | Error

datatype Level = Info | Success | Warning | LevelError

text \<open>
  The texts handed to \<open>addLog\<close> and stored in \<open>errorMessage\<close> are template literals with
  Turkish wording; each template is one constructor whose arguments are the values the
  source interpolates (sizes and durations before \<open>formatFileSize\<close> / \<open>formatDuration\<close>).
  \<open>MsgText\<close> is any other text: the \<open>message\<close> of an \<open>Error\<close> thrown by \<open>fetch\<close>, or a text
  read back from the database.
\<close>

datatype Msg =
    MsgFolderSelected nat nat
  | MsgFileLine string int string
  | MsgNoValidFiles
  | MsgUploadStarting nat int
  | MsgUploadEndpoint string
  | MsgUploadHttpFailure int string
  | MsgUploadDone nat int
  | MsgFileUploaded string int
  | MsgUploadError Msg
  | MsgNoUploadedFiles
  | MsgProcessStarting nat
  | MsgProcessEndpoint string
  | MsgProcessHttpFailure int string
  | MsgProcessDone nat int
  | MsgFileProcessed string
  | MsgProcessError Msg
  | MsgUnknownError
  | MsgText string

text \<open>The browser's \<open>File\<close> object, as far as the sources read it.\<close>

record File =
  file_name :: string
  file_size :: int
  file_lastModified :: int
  file_type :: string
  file_webkitRelativePath :: "string option"

text \<open>
  The fields of \<open>interface FileMetadata\<close>, which are also the columns of the table
  \<open>FileMetadata\<close>; the field \<open>id\<close> is called \<open>id'\<close> here. An optional field is an
  \<open>option\<close>: \<open>None\<close> is \<open>undefined\<close> or \<open>null\<close>. The type \<open>'t\<close> is the type of the three
  time stamps: in the client they are ISO texts, in the store they are dates, kept as
  their time value (milliseconds since the epoch).
\<close>

type_synonym Instant = int

record 't Metadata =
  id' :: string
  name :: string
  sizeBytes :: int
  relativePath :: "string option"
  lastModified :: int
  selectedAt :: "'t option"
  uploadedAt :: "'t option"
  processedAt :: "'t option"
  host :: Environment
  status :: FileStatus
  errorMessage :: "Msg option"
  computerName :: "string option"
  userName :: "string option"
  userAgent :: "string option"
  uploadDuration :: "int option"
  processDuration :: "int option"
  fileType :: "string option"
  mimeType :: "string option"
  checksum :: "string option"
  retryCount :: "int option"

type_synonym FileMetadata = "string Metadata"

type_synonym FileRow = "Instant Metadata"

text \<open>
  The JSON body of a \<open>PUT /api/files\<close> request: \<open>JSON.stringify\<close> leaves a field out
  when its value is \<open>undefined\<close>, which is \<open>None\<close> here. The two time stamps are texts, as
  the client sends them.
\<close>

record PutBody =
  put_id :: string
  put_status :: "FileStatus option"
  put_uploadedAt :: "string option"
  put_uploadDuration :: "int option"
  put_processedAt :: "string option"
  put_processDuration :: "int option"
  put_errorMessage :: "Msg option"
  put_retryCount :: "int option"

text \<open>One entry of a \<open>FormData\<close> body: a file part (with its file name) or a text field.\<close>

datatype FormValue = FilePart File string | TextPart string

type_synonym FormData = "(string \<times> FormValue) list"

text \<open>
  What a handler does to the outside, in program order. \<open>UploadRequest\<close> and
  \<open>ProcessRequest\<close> are the two \<open>fetch\<close> calls to the backend (URL, body);
  \<open>UploadSettled\<close> and \<open>ProcessSettled\<close> mark the point where the \<open>await\<close> on that call
  has returned or thrown. \<open>Log\<close> is a call of \<open>addLog(message, level, fileId)\<close>,
  \<open>PostFile\<close> and \<open>PutFile\<close> are the requests to \<open>/api/files\<close>.
\<close>

datatype Event =
    Log Msg Level "string option"
  | PostFile FileMetadata
  | PutFile PutBody
  | UploadRequest string FormData
  | UploadSettled
  | ProcessRequest string "(string \<times> bool) option"
  | ProcessSettled

text \<open>
  The component state one render closes over. Every handler of that render reads these
  values; \<open>setSelectedFiles\<close> and \<open>setFileMetadata\<close> only determine the next render.
\<close>

record PageState =
  environment :: Environment
  selectedFiles :: "File list"
  fileMetadata :: "FileMetadata list"

text \<open>
  The result of running a handler: the last value it passed to \<open>setSelectedFiles\<close> and
  to \<open>setFileMetadata\<close> (\<open>None\<close>: it did not call the setter) and its events.
\<close>

record Outcome =
  set_selectedFiles :: "File list option"
  set_fileMetadata :: "FileMetadata list option"
  trace :: "Event list"

definition next_render :: "PageState \<Rightarrow> Outcome \<Rightarrow> PageState" where
  "next_render s out =
     s\<lparr>selectedFiles := (case set_selectedFiles out of None \<Rightarrow> selectedFiles s | Some fs \<Rightarrow> fs),
       fileMetadata := (case set_fileMetadata out of None \<Rightarrow> fileMetadata s | Some ms \<Rightarrow> ms)\<rparr>"

text \<open>How an awaited \<open>fetch\<close> to the backend ends.\<close>

record Response =
  ok :: bool
  http_status :: int
  body_text :: string

datatype FetchResult =
    Fulfilled Response
  | RejectedError string
  | RejectedOther

section \<open>Helpers of the web client\<close>

definition SUPPORTED_EXTENSIONS :: "string list" where
  "SUPPORTED_EXTENSIONS = [''.txt'', ''.pdf'', ''.docx'', ''.md'']"

definition getApiBaseUrl :: "Environment \<Rightarrow> string" where
  "getApiBaseUrl env =
     (if env = Local then ''http://localhost:8000'' else ''http://10.1.1.172:3820'')"

definition getUploadEndpoint :: "Environment \<Rightarrow> string" where
  "getUploadEndpoint env = getApiBaseUrl env @ ''/embeddings/upload''"

definition getProcessEndpoint :: "Environment \<Rightarrow> string" where
  "getProcessEndpoint env = getApiBaseUrl env @ ''/embeddings/process-uploads''"

definition isSupportedFile :: "File \<Rightarrow> bool" where
  "isSupportedFile file =
     (let lower = toLowerCase (file_name file) in
      list_ex (\<lambda>ext. endsWith lower ext) SUPPORTED_EXTENSIONS)"

text \<open>\<open>file.name.split('.').pop()\<close>: the text after the last dot, the whole name without one.\<close>

definition last_segment :: "string \<Rightarrow> string" where
  "last_segment s = (let i = lastIndexOf s CHR ''.'' in if i < 0 then s else slice s (i + 1))"

definition getFileType :: "File \<Rightarrow> string" where
  "getFileType file =
     (let extension = toLowerCase (last_segment (file_name file));
          mimeType = file_type file in
      if extension = ''pdf'' then ''PDF Document''
      else if extension = ''docx'' then ''Word Document''
      else if extension = ''txt'' then ''Text File''
      else if extension = ''md'' then ''Markdown File''
      else if mimeType \<noteq> [] then mimeType else ''Unknown'')"

text \<open>\<open>useMemo(() => selectedFiles.filter(isSupportedFile))\<close>.\<close>

definition filteredFiles :: "PageState \<Rightarrow> File list" where
  "filteredFiles s = filter isSupportedFile (selectedFiles s)"

section \<open>The handlers of the web client\<close>

subsection \<open>Selecting a folder\<close>

text \<open>
  What \<open>getComputerInfo()\<close> and \<open>navigator.userAgent\<close> return is an input of the model.
\<close>

record BrowserInfo =
  info_computerName :: string
  info_userName :: string
  info_userAgent :: string

text \<open>
  How the \<open>POST /api/files\<close> of one file ends: \<open>response.ok\<close> with the stored row's id,
  a response that is not ok, or an exception inside the \<open>try\<close>.
\<close>

datatype PostResult = PostOk string | PostNotOk | PostThrows

text \<open>The object literal built by \<open>supported.map((file, index) => ...)\<close>.\<close>

definition new_metadata :: "Environment \<Rightarrow> string \<Rightarrow> BrowserInfo \<Rightarrow> nat \<Rightarrow> File \<Rightarrow> FileMetadata" where
  "new_metadata env nowIso info index file =
     \<lparr> id' = file_name file @ ''-'' @ string_of_int (file_size file) @ ''-''
             @ string_of_int (file_lastModified file) @ ''-'' @ string_of_nat index,
       name = file_name file,
       sizeBytes = file_size file,
       relativePath = file_webkitRelativePath file,
       lastModified = file_lastModified file,
       selectedAt = Some nowIso,
       uploadedAt = None,
       processedAt = None,
       host = env,
       status = Pending,
       errorMessage = None,
       computerName = Some (info_computerName info),
       userName = Some (info_userName info),
       userAgent = Some (info_userAgent info),
       uploadDuration = None,
       processDuration = None,
       fileType = Some (getFileType file),
       mimeType = Some (file_type file),
       checksum = None,
       retryCount = Some 0 \<rparr>"

definition file_line :: "File \<Rightarrow> Msg" where
  "file_line file =
     MsgFileLine (file_name file) (file_size file)
       (if file_type file \<noteq> [] then file_type file else ''Unknown type'')"

text \<open>
  The loop \<open>for (const [index, file] of supported.entries())\<close>: one \<open>POST\<close> per file; on
  an ok response the record takes the stored id and one info entry with that id is
  logged, on an exception one info entry without id, otherwise nothing.
\<close>

fun save_files :: "(nat \<Rightarrow> PostResult) \<Rightarrow> nat \<Rightarrow> (File \<times> FileMetadata) list
    \<Rightarrow> FileMetadata list \<times> Event list" where
  "save_files post index [] = ([], [])"
| "save_files post index ((file, meta) # rest) =
     (let (metas, events) = save_files post (Suc index) rest in
      case post index of
        PostOk db_id \<Rightarrow>
          (meta\<lparr>id' := db_id\<rparr> # metas,
           PostFile meta # Log (file_line file) Info (Some db_id) # events)
      | PostNotOk \<Rightarrow> (meta # metas, PostFile meta # events)
      | PostThrows \<Rightarrow>
          (meta # metas, PostFile meta # Log (file_line file) Info None # events))"

definition handleFolderChange ::
    "PageState \<Rightarrow> File list option \<Rightarrow> string \<Rightarrow> BrowserInfo \<Rightarrow> (nat \<Rightarrow> PostResult) \<Rightarrow> Outcome" where
  "handleFolderChange s fileList nowIso info post =
     (case fileList of
        None \<Rightarrow> \<lparr> set_selectedFiles = Some [], set_fileMetadata = Some [], trace = [] \<rparr>
      | Some files \<Rightarrow>
          (let supported = filter isSupportedFile files;
               metas = map (\<lambda>(index, file). new_metadata (environment s) nowIso info index file)
                         (enumerate 0 supported);
               (saved, events) = save_files post 0 (zip supported metas)
           in \<lparr> set_selectedFiles = Some supported,
                set_fileMetadata = Some saved,
                trace = Log (MsgFolderSelected (length supported) (length files)) Info None
                          # events \<rparr>))"

subsection \<open>Uploading\<close>

text \<open>\<open>uploadFiles()\<close>: the form body, the endpoint log and the one \<open>fetch\<close>.\<close>

definition uploadFiles_formData :: "PageState \<Rightarrow> FormData" where
  "uploadFiles_formData s =
     map (\<lambda>file. (''files'', FilePart file (file_name file))) (filteredFiles s)"

definition uploadFiles :: "PageState \<Rightarrow> Event list" where
  "uploadFiles s =
     (let endpoint = getUploadEndpoint (environment s) in
      [Log (MsgUploadEndpoint endpoint) Info None,
       UploadRequest endpoint (uploadFiles_formData s)])"

text \<open>
  The \<open>try\<close> block up to the \<open>ok\<close> test: \<open>Inl\<close> is the message the \<open>catch\<close> computes
  (\<open>err instanceof Error ? err.message : "Bilinmeyen hata"\<close>), \<open>Inr\<close> is success.
\<close>

definition upload_attempt :: "FetchResult \<Rightarrow> Msg + unit" where
  "upload_attempt r =
     (case r of
        Fulfilled resp \<Rightarrow>
          if \<not> ok resp then Inl (MsgUploadHttpFailure (http_status resp) (body_text resp))
          else Inr ()
      | RejectedError m \<Rightarrow> Inl (MsgText m)
      | RejectedOther \<Rightarrow> Inl MsgUnknownError)"

text \<open>\<open>(m.retryCount || 0) + 1\<close>.\<close>

definition bump_retryCount :: "FileMetadata \<Rightarrow> int" where
  "bump_retryCount m = (case retryCount m of None \<Rightarrow> 0 | Some n \<Rightarrow> n) + 1"

definition mark_uploaded :: "string \<Rightarrow> int \<Rightarrow> FileMetadata \<Rightarrow> FileMetadata" where
  "mark_uploaded uploadedAt_now duration m =
     m\<lparr>status := Uploaded, uploadedAt := Some uploadedAt_now, uploadDuration := Some duration\<rparr>"

definition mark_error :: "Msg \<Rightarrow> FileMetadata \<Rightarrow> FileMetadata" where
  "mark_error message m =
     m\<lparr>status := Error, errorMessage := Some message, retryCount := Some (bump_retryCount m)\<rparr>"

definition put_uploaded :: "FileMetadata \<Rightarrow> PutBody" where
  "put_uploaded meta =
     \<lparr> put_id = id' meta, put_status = Some (status meta),
       put_uploadedAt = uploadedAt meta, put_uploadDuration = uploadDuration meta,
       put_processedAt = None, put_processDuration = None,
       put_errorMessage = None, put_retryCount = None \<rparr>"

definition put_error :: "FileMetadata \<Rightarrow> PutBody" where
  "put_error meta =
     \<lparr> put_id = id' meta, put_status = Some (status meta),
       put_uploadedAt = None, put_uploadDuration = None,
       put_processedAt = None, put_processDuration = None,
       put_errorMessage = errorMessage meta, put_retryCount = retryCount meta \<rparr>"

definition handleUploadOnly :: "PageState \<Rightarrow> FetchResult \<Rightarrow> int \<Rightarrow> string \<Rightarrow> Outcome" where
  "handleUploadOnly s uploadResp duration uploadedAt_now =
     (if filteredFiles s = [] then
        \<lparr> set_selectedFiles = None, set_fileMetadata = None,
          trace = [Log MsgNoValidFiles LevelError None] \<rparr>
      else
        (let started =
               Log (MsgUploadStarting (length (filteredFiles s))
                      (sum_list (map file_size (filteredFiles s)))) Info None
               # uploadFiles s @ [UploadSettled]
         in case upload_attempt uploadResp of
              Inr _ \<Rightarrow>
                (let updatedMetas = map (mark_uploaded uploadedAt_now duration) (fileMetadata s)
                 in \<lparr> set_selectedFiles = None,
                      set_fileMetadata = Some updatedMetas,
                      trace = started
                        @ map (\<lambda>meta. PutFile (put_uploaded meta)) updatedMetas
                        @ [Log (MsgUploadDone (length (filteredFiles s)) duration) Success None]
                        @ map (\<lambda>file. Log (MsgFileUploaded (file_name file) (file_size file)) Success
                                 (map_option id' (find (\<lambda>m. name m = file_name file) updatedMetas)))
                            (filteredFiles s) \<rparr>)
            | Inl message \<Rightarrow>
                (let updatedMetas = map (mark_error message) (fileMetadata s)
                 in \<lparr> set_selectedFiles = None,
                      set_fileMetadata = Some updatedMetas,
                      trace = started
                        @ map (\<lambda>meta. PutFile (put_error meta)) updatedMetas
                        @ [Log (MsgUploadError message) LevelError None] \<rparr>)))"

subsection \<open>Processing\<close>

definition processUploaded :: "PageState \<Rightarrow> Event list" where
  "processUploaded s =
     (let endpoint = getProcessEndpoint (environment s) in
      [Log (MsgProcessEndpoint endpoint) Info None, ProcessRequest endpoint None])"

definition process_attempt :: "FetchResult \<Rightarrow> Msg + unit" where
  "process_attempt r =
     (case r of
        Fulfilled resp \<Rightarrow>
          if \<not> ok resp then Inl (MsgProcessHttpFailure (http_status resp) (body_text resp))
          else Inr ()
      | RejectedError m \<Rightarrow> Inl (MsgText m)
      | RejectedOther \<Rightarrow> Inl MsgUnknownError)"

definition mark_processed :: "string \<Rightarrow> int \<Rightarrow> FileMetadata \<Rightarrow> FileMetadata" where
  "mark_processed processedAt_now duration m =
     m\<lparr>status := Processed, processedAt := Some processedAt_now, processDuration := Some duration\<rparr>"

definition put_processed :: "FileMetadata \<Rightarrow> PutBody" where
  "put_processed meta =
     \<lparr> put_id = id' meta, put_status = Some (status meta),
       put_uploadedAt = None, put_uploadDuration = None,
       put_processedAt = processedAt meta, put_processDuration = processDuration meta,
       put_errorMessage = None, put_retryCount = None \<rparr>"

definition handleProcessOnly :: "PageState \<Rightarrow> FetchResult \<Rightarrow> int \<Rightarrow> string \<Rightarrow> Outcome" where
  "handleProcessOnly s processResp duration processedAt_now =
     (let uploadedFiles = filter (\<lambda>f. status f = Uploaded) (fileMetadata s) in
      if uploadedFiles = [] then
        \<lparr> set_selectedFiles = None, set_fileMetadata = None,
          trace = [Log MsgNoUploadedFiles LevelError None] \<rparr>
      else
        (let started =
               Log (MsgProcessStarting (length uploadedFiles)) Info None
               # processUploaded s @ [ProcessSettled]
         in case process_attempt processResp of
              Inr _ \<Rightarrow>
                (let updatedMetas = map (mark_processed processedAt_now duration) (fileMetadata s)
                 in \<lparr> set_selectedFiles = None,
                      set_fileMetadata = Some updatedMetas,
                      trace = started
                        @ map (\<lambda>meta. PutFile (put_processed meta)) updatedMetas
                        @ [Log (MsgProcessDone (length uploadedFiles) duration) Success None]
                        @ map (\<lambda>file. Log (MsgFileProcessed (name file)) Success
                                 (map_option id' (find (\<lambda>m. name m = name file) updatedMetas)))
                            uploadedFiles \<rparr>)
            | Inl message \<Rightarrow>
                (let updatedMetas = map (mark_error message) (fileMetadata s)
                 in \<lparr> set_selectedFiles = None,
                      set_fileMetadata = Some updatedMetas,
                      trace = started
                        @ map (\<lambda>meta. PutFile (put_error meta)) updatedMetas
                        @ [Log (MsgProcessError message) LevelError None] \<rparr>)))"

subsection \<open>Upload and process\<close>

text \<open>
  \<open>handleUploadAndProcess\<close> awaits \<open>handleUploadOnly()\<close>, tests
  \<open>fileMetadata.some(f => f.status === "uploaded")\<close> and then awaits
  \<open>handleProcessOnly()\<close>. All three read the \<open>fileMetadata\<close> of the render the handler
  belongs to: the \<open>setFileMetadata\<close> of the upload step does not change that constant.
\<close>

definition handleUploadAndProcess ::
    "PageState \<Rightarrow> FetchResult \<Rightarrow> int \<Rightarrow> string \<Rightarrow> FetchResult \<Rightarrow> int \<Rightarrow> string \<Rightarrow> Outcome" where
  "handleUploadAndProcess s uploadResp uploadDur uploadedAt_now processResp processDur processedAt_now =
     (let up = handleUploadOnly s uploadResp uploadDur uploadedAt_now in
      if list_ex (\<lambda>f. status f = Uploaded) (fileMetadata s) then
        (let pr = handleProcessOnly s processResp processDur processedAt_now in
         \<lparr> set_selectedFiles = None,
           set_fileMetadata =
             (case set_fileMetadata pr of None \<Rightarrow> set_fileMetadata up | Some ms \<Rightarrow> Some ms),
           trace = trace up @ trace pr \<rparr>)
      else up)"

section \<open>The store behind \<open>/api/files\<close> and \<open>/api/logs\<close>\<close>

text \<open>
  The two tables of \<open>migration.sql\<close>. A row of \<open>FileMetadata\<close> has the fields of the
  client's record with dates for the time stamps (the bookkeeping columns \<open>createdAt\<close>
  and \<open>updatedAt\<close> are left out); a row of \<open>Log\<close> carries the nullable foreign key \<open>fileId\<close>, declared
  \<open>REFERENCES "FileMetadata" ("id") ON DELETE SET NULL\<close>.
\<close>

record LogRow =
  log_id :: string
  log_message :: Msg
  log_level :: Level
  log_timestamp :: string
  log_fileId :: "string option"

record Store =
  files :: "FileRow list"
  logs :: "LogRow list"

text \<open>The routes answer a failure with status 500 and an error text.\<close>

datatype ApiError = ApiError int string

text \<open>
  \<open>DELETE FROM "FileMetadata" WHERE p\<close> together with the foreign key's action: the rows
  that satisfy \<open>p\<close> go, and every log row whose \<open>fileId\<close> is the id of a row that went
  has its \<open>fileId\<close> set to \<open>NULL\<close>. Log rows are neither removed nor reordered.
\<close>

definition delete_files_where :: "(FileRow \<Rightarrow> bool) \<Rightarrow> Store \<Rightarrow> Store" where
  "delete_files_where p store =
     (let deleted = map id' (filter p (files store)) in
      \<lparr> files = filter (\<lambda>r. \<not> p r) (files store),
        logs = map (\<lambda>l. case log_fileId l of
                           None \<Rightarrow> l
                         | Some fid \<Rightarrow> if fid \<in> set deleted then l\<lparr>log_fileId := None\<rparr> else l)
                 (logs store) \<rparr>)"

text \<open>\<open>DELETE /api/files\<close>: \<open>prisma.fileMetadata.deleteMany({})\<close>.\<close>

definition files_DELETE :: "Store \<Rightarrow> Store" where
  "files_DELETE store = delete_files_where (\<lambda>r. True) store"

text \<open>
  What \<open>new Date(text)\<close> gives: a date with its time value, or \<open>Invalid Date\<close>. The
  date parser of the JavaScript engine is an input of the model (\<open>new_Date\<close> below).
\<close>

datatype Date = Date Instant | InvalidDate

text \<open>\<open>updateData.x ? new Date(updateData.x) : null\<close>; a missing and an empty text are falsy.\<close>

definition date_or_null :: "(string \<Rightarrow> Date) \<Rightarrow> string option \<Rightarrow> Date option" where
  "date_or_null new_Date v =
     (case v of None \<Rightarrow> None | Some s \<Rightarrow> if s = [] then None else Some (new_Date s))"

text \<open>The value of a date column after a write of \<open>null\<close> or of a valid date.\<close>

fun column_value :: "Date option \<Rightarrow> Instant option" where
  "column_value (Some (Date t)) = Some t"
| "column_value d = None"

text \<open>
  \<open>PUT /api/files\<close>. The body is split into \<open>id\<close> and \<open>updateData\<close>; Prisma writes the
  fields that \<open>updateData\<close> holds and leaves the others, but \<open>uploadedAt\<close> and
  \<open>processedAt\<close> are always part of \<open>data\<close>:
  \<open>updateData.uploadedAt ? new Date(updateData.uploadedAt) : null\<close>.
  \<open>update\<close> throws for an unknown id and for a date in \<open>data\<close> that is \<open>Invalid Date\<close>;
  the route answers both with status 500, and no row has changed.
\<close>

definition apply_update :: "PutBody \<Rightarrow> Date option \<Rightarrow> Date option \<Rightarrow> FileRow \<Rightarrow> FileRow" where
  "apply_update body uploaded processed r =
     r\<lparr> status := (case put_status body of None \<Rightarrow> status r | Some v \<Rightarrow> v),
        uploadDuration :=
          (case put_uploadDuration body of None \<Rightarrow> uploadDuration r | Some v \<Rightarrow> Some v),
        processDuration :=
          (case put_processDuration body of None \<Rightarrow> processDuration r | Some v \<Rightarrow> Some v),
        errorMessage :=
          (case put_errorMessage body of None \<Rightarrow> errorMessage r | Some v \<Rightarrow> Some v),
        retryCount := (case put_retryCount body of None \<Rightarrow> retryCount r | Some v \<Rightarrow> Some v),
        uploadedAt := column_value uploaded,
        processedAt := column_value processed \<rparr>"

definition files_PUT :: "(string \<Rightarrow> Date) \<Rightarrow> Store \<Rightarrow> PutBody \<Rightarrow> ApiError + Store" where
  "files_PUT new_Date store body =
     (let uploaded = date_or_null new_Date (put_uploadedAt body);
          processed = date_or_null new_Date (put_processedAt body)
      in if \<not> list_ex (\<lambda>r. id' r = put_id body) (files store)
            \<or> uploaded = Some InvalidDate \<or> processed = Some InvalidDate
         then Inl (ApiError 500 ''Failed to update file'')
         else Inr (store\<lparr>files :=
                     map (\<lambda>r. if id' r = put_id body then apply_update body uploaded processed r
                              else r)
                       (files store)\<rparr>))"

section \<open>The plain page \<open>app.js\<close>\<close>

datatype UploadStatus = StatusPending | StatusSuccess | StatusFailed | StatusError

text \<open>One row appended to the table.\<close>

record Row =
  row_name :: string
  row_time :: string
  row_userAgent :: string
  row_uploadStatus :: UploadStatus
  row_uploadMessage :: string

text \<open>
  How the upload of one file ends: a JSON answer (\<open>result.success\<close>, \<open>result.message\<close>),
  or an exception inside the \<open>try\<close> with its \<open>err.message\<close>.
\<close>

datatype AppUploadResult = UploadJson bool "string option" | UploadThrows string

text \<open>
  How the processing call ends: success with \<open>result.inserted_chunks\<close>, an answer whose
  \<open>success\<close> is false with its \<open>error\<close>, or an exception with its message.
\<close>

datatype AppProcessResult = ProcessJsonOk int | ProcessJsonFailed string | ProcessThrows string

datatype StatusText =
    StatusEmpty
  | StatusProcessingComplete int
  | StatusProcessingFailed string
  | StatusProcessingError string

definition PROD_UPLOAD_URL :: string where
  "PROD_UPLOAD_URL = ''http://10.1.1.172:3820/embeddings/upload''"

definition PROD_PROCESS_URL :: string where
  "PROD_PROCESS_URL = ''http://10.1.1.172:3820/embeddings/process-uploads''"

text \<open>The filter of the click handler: the text from the last dot on, in lower case.\<close>

definition app_supported :: "File \<Rightarrow> bool" where
  "app_supported f =
     (toLowerCase (slice (file_name f) (lastIndexOf (file_name f) CHR ''.''))
        \<in> set SUPPORTED_EXTENSIONS)"

definition app_formData :: "File \<Rightarrow> string \<Rightarrow> string \<Rightarrow> FormData" where
  "app_formData file now_iso user_agent =
     [(''file'', FilePart file (file_name file)),
      (''uploaded_at'', TextPart now_iso),
      (''uploaded_by'', TextPart user_agent),
      (''original_path'',
         TextPart (case file_webkitRelativePath file of None \<Rightarrow> ''undefined'' | Some p \<Rightarrow> p))]"

definition upload_row :: "File \<Rightarrow> string \<Rightarrow> string \<Rightarrow> AppUploadResult \<Rightarrow> Row" where
  "upload_row file now_local user_agent r =
     (case r of
        UploadJson success message \<Rightarrow>
          \<lparr> row_name = file_name file, row_time = now_local, row_userAgent = user_agent,
            row_uploadStatus = (if success then StatusSuccess else StatusFailed),
            row_uploadMessage = (case message of None \<Rightarrow> [] | Some m \<Rightarrow> m) \<rparr>
      | UploadThrows m \<Rightarrow>
          \<lparr> row_name = file_name file, row_time = now_local, row_userAgent = user_agent,
            row_uploadStatus = StatusError, row_uploadMessage = m \<rparr>)"

text \<open>
  The loop \<open>for (const file of filteredFiles)\<close>: the \<open>index\<close>-th pass builds its form,
  awaits its own \<open>fetch\<close> inside its own \<open>try\<close>, and appends its row.
\<close>

fun upload_loop :: "(nat \<Rightarrow> AppUploadResult) \<Rightarrow> (nat \<Rightarrow> string) \<Rightarrow> (nat \<Rightarrow> string) \<Rightarrow> string
    \<Rightarrow> nat \<Rightarrow> File list \<Rightarrow> Row list \<times> Event list" where
  "upload_loop resp iso_now local_now ua index [] = ([], [])"
| "upload_loop resp iso_now local_now ua index (file # rest) =
     (let formData = app_formData file (iso_now index) ua;
          row = upload_row file (local_now index) ua (resp index);
          (rows, events) = upload_loop resp iso_now local_now ua (Suc index) rest
      in (row # rows, UploadRequest PROD_UPLOAD_URL formData # UploadSettled # events))"

record AppOutcome =
  alerted :: bool
  table_rows :: "Row list"
  statusDiv :: StatusText
  app_trace :: "Event list"

definition click_upload ::
    "Row list \<Rightarrow> StatusText \<Rightarrow> File list \<Rightarrow> (nat \<Rightarrow> AppUploadResult) \<Rightarrow> (nat \<Rightarrow> string)
     \<Rightarrow> (nat \<Rightarrow> string) \<Rightarrow> string \<Rightarrow> AppProcessResult \<Rightarrow> AppOutcome" where
  "click_upload old_rows old_status picked resp iso_now local_now ua proc =
     (if picked = [] then
        \<lparr> alerted = True, table_rows = old_rows, statusDiv = old_status, app_trace = [] \<rparr>
      else
        (let filtered = filter app_supported picked;
             (rows, events) = upload_loop resp iso_now local_now ua 0 filtered
         in \<lparr> alerted = False,
              table_rows = rows,
              statusDiv =
                (case proc of
                   ProcessJsonOk n \<Rightarrow> StatusProcessingComplete n
                 | ProcessJsonFailed e \<Rightarrow> StatusProcessingFailed e
                 | ProcessThrows m \<Rightarrow> StatusProcessingError m),
              app_trace = events
                @ [ProcessRequest PROD_PROCESS_URL (Some (''/app/data/uploads'', True)),
                   ProcessSettled] \<rparr>))"

section \<open>Duplicate classification\<close>

text \<open>
  Modelled from the spec: the desktop client's duplicate detection (\<open>file_manager.py\<close>,
  \<open>database.py\<close>) is not among the sources; only its README files are. The lifecycle
  states are those of section 4.3, the decision is the precedence list of section 4.4:
  no prior record with the same hash and host gives \<open>NEW\<close>; at least one prior record
  that reached \<open>PROCESSED\<close> gives \<open>OVERWRITE\<close> with the count of those; otherwise
  \<open>DUPLICATE\<close>.
\<close>

datatype Lifecycle =
    SELECTED | PENDING | UPLOADING | UPLOADED | UPLOAD_FAILED
  | PROCESSING | PROCESSED | PROCESS_FAILED | IS_DUPLICATE | IS_OVERWRITE nat

record FileRecord =
  rec_id :: nat
  rec_contentHash :: string
  rec_host :: string
  rec_selectedAt :: int
  rec_status :: Lifecycle

datatype Classification = NEW | DUPLICATE | OVERWRITE nat

definition same_content :: "string \<Rightarrow> string \<Rightarrow> FileRecord list \<Rightarrow> FileRecord list" where
  "same_content contentHash host_name priorRecords =
     filter (\<lambda>r. rec_contentHash r = contentHash \<and> rec_host r = host_name) priorRecords"

definition processed_priors :: "string \<Rightarrow> string \<Rightarrow> FileRecord list \<Rightarrow> nat" where
  "processed_priors contentHash host_name priorRecords =
     length (filter (\<lambda>r. rec_status r = PROCESSED)
               (same_content contentHash host_name priorRecords))"

definition classify :: "string \<Rightarrow> string \<Rightarrow> FileRecord list \<Rightarrow> Classification" where
  "classify contentHash host_name priorRecords =
     (if same_content contentHash host_name priorRecords = [] then NEW
      else if 1 \<le> processed_priors contentHash host_name priorRecords
           then OVERWRITE (processed_priors contentHash host_name priorRecords)
      else DUPLICATE)"

section \<open>Reading a trace\<close>

text \<open>The levels of the \<open>addLog\<close> calls of a trace, in order.\<close>

fun log_levels :: "Event list \<Rightarrow> Level list" where
  "log_levels [] = []"
| "log_levels (Log m lv fid # es) = lv # log_levels es"
| "log_levels (e # es) = log_levels es"

text \<open>The records a trace registers in the store (\<open>POST /api/files\<close>).\<close>

fun posted :: "Event list \<Rightarrow> FileMetadata list" where
  "posted [] = []"
| "posted (PostFile m # es) = m # posted es"
| "posted (e # es) = posted es"

text \<open>The form bodies of the upload requests of a trace.\<close>

fun upload_bodies :: "Event list \<Rightarrow> FormData list" where
  "upload_bodies [] = []"
| "upload_bodies (UploadRequest url body # es) = body # upload_bodies es"
| "upload_bodies (e # es) = upload_bodies es"

text \<open>The calls to the backend and the points where they settled, without their payloads.\<close>

datatype Tag = UpReq | UpSettled | ProcReq | ProcSettled

fun boundary_tags :: "Event list \<Rightarrow> Tag list" where
  "boundary_tags [] = []"
| "boundary_tags (UploadRequest url body # es) = UpReq # boundary_tags es"
| "boundary_tags (UploadSettled # es) = UpSettled # boundary_tags es"
| "boundary_tags (ProcessRequest url body # es) = ProcReq # boundary_tags es"
| "boundary_tags (ProcessSettled # es) = ProcSettled # boundary_tags es"
| "boundary_tags (e # es) = boundary_tags es"

text \<open>The number of failed attempts a record shows: \<open>m.retryCount || 0\<close>.\<close>

definition retries :: "FileMetadata \<Rightarrow> int" where
  "retries m = (case retryCount m of None \<Rightarrow> 0 | Some n \<Rightarrow> n)"

section \<open>Scenarios\<close>

text \<open>
  Scenario A of the specification: a folder with \<open>a.txt\<close>, \<open>b.pdf\<close> and \<open>c.exe\<close> is
  selected on a fresh page; every \<open>POST /api/files\<close> succeeds.
\<close>

definition file_a :: File where
  "file_a = \<lparr> file_name = ''a.txt'', file_size = 12, file_lastModified = 1000,
              file_type = ''text/plain'', file_webkitRelativePath = Some ''docs/a.txt'' \<rparr>"

definition file_b :: File where
  "file_b = \<lparr> file_name = ''b.pdf'', file_size = 2048, file_lastModified = 2000,
              file_type = ''application/pdf'', file_webkitRelativePath = Some ''docs/b.pdf'' \<rparr>"

definition file_c :: File where
  "file_c = \<lparr> file_name = ''c.exe'', file_size = 7, file_lastModified = 3000,
              file_type = [], file_webkitRelativePath = Some ''docs/c.exe'' \<rparr>"

definition browser :: BrowserInfo where
  "browser = \<lparr> info_computerName = ''Win32'', info_userName = ''Unknown'',
               info_userAgent = ''Mozilla/5.0'' \<rparr>"

definition post_ok :: "nat \<Rightarrow> PostResult" where
  "post_ok index = PostOk (if index = 0 then ''db0'' else ''db1'')"

definition fresh_page :: PageState where
  "fresh_page = \<lparr> environment = Local, selectedFiles = [], fileMetadata = [] \<rparr>"

definition scenario_A :: Outcome where
  "scenario_A =
     handleFolderChange fresh_page (Some [file_a, file_b, file_c])
       ''2025-08-22T12:00:00.000Z'' browser post_ok"

definition selected :: PageState where
  "selected = next_render fresh_page scenario_A"

text \<open>The two records of that page, as registered.\<close>

definition meta_a :: FileMetadata where
  "meta_a = (new_metadata Local ''2025-08-22T12:00:00.000Z'' browser 0 file_a)\<lparr>id' := ''db0''\<rparr>"

definition meta_b :: FileMetadata where
  "meta_b = (new_metadata Local ''2025-08-22T12:00:00.000Z'' browser 1 file_b)\<lparr>id' := ''db1''\<rparr>"

text \<open>Answers of the backend: a server error, and success.\<close>

definition resp_500 :: FetchResult where
  "resp_500 = Fulfilled \<lparr> ok = False, http_status = 500, body_text = ''Internal Server Error'' \<rparr>"

definition resp_200 :: FetchResult where
  "resp_200 = Fulfilled \<lparr> ok = True, http_status = 200, body_text = ''{}'' \<rparr>"

text \<open>The page after an upload of the selection that failed, and after one that succeeded.\<close>

definition upload_failed :: PageState where
  "upload_failed =
     next_render selected (handleUploadOnly selected resp_500 40 ''2025-08-22T12:01:00.000Z'')"

definition upload_done :: PageState where
  "upload_done =
     next_render selected (handleUploadOnly selected resp_200 40 ''2025-08-22T12:01:00.000Z'')"

text \<open>
  A page whose records were loaded from the store on mount: \<open>a.txt\<close> was uploaded in an
  earlier session, \<open>b.pdf\<close> was selected later and is still pending.
\<close>

definition loaded_page :: PageState where
  "loaded_page =
     \<lparr> environment = Local, selectedFiles = [],
       fileMetadata = [mark_uploaded ''2025-08-22T12:01:00.000Z'' 40 meta_a, meta_b] \<rparr>"

text \<open>
  The answers of the date parser on the texts of the scenarios; a text that is not a
  date gives \<open>Invalid Date\<close>.
\<close>

definition scenario_Date :: "string \<Rightarrow> Date" where
  "scenario_Date s =
     (if s = ''2025-08-22T12:00:00.000Z'' then Date 1755864000000
      else if s = ''2025-08-22T12:01:00.000Z'' then Date 1755864060000
      else if s = ''2025-08-22T12:02:00.000Z'' then Date 1755864120000
      else InvalidDate)"

text \<open>The rows of the two records in the store after the successful upload.\<close>

definition row_a :: FileRow where
  "row_a =
     \<lparr> id' = ''db0'', name = ''a.txt'', sizeBytes = 12, relativePath = Some ''docs/a.txt'',
       lastModified = 1000, selectedAt = Some 1755864000000, uploadedAt = Some 1755864060000,
       processedAt = None, host = Local, status = Uploaded, errorMessage = None,
       computerName = Some ''Win32'', userName = Some ''Unknown'',
       userAgent = Some ''Mozilla/5.0'', uploadDuration = Some 40, processDuration = None,
       fileType = Some ''Text File'', mimeType = Some ''text/plain'', checksum = None,
       retryCount = Some 0 \<rparr>"

definition row_b :: FileRow where
  "row_b =
     \<lparr> id' = ''db1'', name = ''b.pdf'', sizeBytes = 2048, relativePath = Some ''docs/b.pdf'',
       lastModified = 2000, selectedAt = Some 1755864000000, uploadedAt = Some 1755864060000,
       processedAt = None, host = Local, status = Uploaded, errorMessage = None,
       computerName = Some ''Win32'', userName = Some ''Unknown'',
       userAgent = Some ''Mozilla/5.0'', uploadDuration = Some 40, processDuration = None,
       fileType = Some ''PDF Document'', mimeType = Some ''application/pdf'', checksum = None,
       retryCount = Some 0 \<rparr>"

text \<open>The store after the successful upload, with one log row for \<open>a.txt\<close> and one without file.\<close>

definition store_1 :: Store where
  "store_1 =
     \<lparr> files = [row_a, row_b],
       logs = [\<lparr> log_id = ''log0'', log_message = MsgFileUploaded ''a.txt'' 12,
                 log_level = Success, log_timestamp = ''2025-08-22T12:01:01.000Z'',
                 log_fileId = Some ''db0'' \<rparr>,
               \<lparr> log_id = ''log1'', log_message = MsgUploadDone 2 40,
                 log_level = Success, log_timestamp = ''2025-08-22T12:01:00.500Z'',
                 log_fileId = None \<rparr>] \<rparr>"

text \<open>
  The body of the \<open>PUT\<close> that \<open>handleProcessOnly\<close> sends for \<open>a.txt\<close> after a processing
  call that succeeded, and a body that leaves \<open>uploadedAt\<close> out and gives a text that is
  not a date for \<open>processedAt\<close>.
\<close>

definition processed_body :: PutBody where
  "processed_body =
     put_processed (mark_processed ''2025-08-22T12:02:00.000Z'' 50
       (mark_uploaded ''2025-08-22T12:01:00.000Z'' 40 meta_a))"

definition bad_date_body :: PutBody where
  "bad_date_body =
     \<lparr> put_id = ''db0'', put_status = Some Processed,
       put_uploadedAt = None, put_uploadDuration = None,
       put_processedAt = Some ''yesterday at noon'', put_processDuration = Some 50,
       put_errorMessage = None, put_retryCount = None \<rparr>"

text \<open>A run of \<open>app.js\<close> on the same folder in which the upload of \<open>b.pdf\<close> throws.\<close>

definition app_resp :: "nat \<Rightarrow> AppUploadResult" where
  "app_resp index = (if index = 1 then UploadThrows ''Failed to fetch'' else UploadJson True None)"

definition app_iso :: "nat \<Rightarrow> string" where
  "app_iso index = (if index = 0 then ''2025-08-22T12:00:00.000Z'' else ''2025-08-22T12:00:01.000Z'')"

definition app_local :: "nat \<Rightarrow> string" where
  "app_local index = (if index = 0 then ''22.08.2025 15:00:00'' else ''22.08.2025 15:00:01'')"

definition app_run :: AppOutcome where
  "app_run =
     click_upload [] StatusEmpty [file_a, file_b, file_c] app_resp app_iso app_local
       ''Mozilla/5.0'' (ProcessJsonOk 4)"

text \<open>Prior records of the duplicate detector: the same content seen three times.\<close>

definition prior_processed_1 :: FileRecord where
  "prior_processed_1 = \<lparr> rec_id = 1, rec_contentHash = ''9f86d081'', rec_host = ''local'',
                         rec_selectedAt = 100, rec_status = PROCESSED \<rparr>"

definition prior_processed_2 :: FileRecord where
  "prior_processed_2 = \<lparr> rec_id = 2, rec_contentHash = ''9f86d081'', rec_host = ''local'',
                         rec_selectedAt = 200, rec_status = PROCESSED \<rparr>"

definition prior_uploading :: FileRecord where
  "prior_uploading = \<lparr> rec_id = 3, rec_contentHash = ''9f86d081'', rec_host = ''production'',
                       rec_selectedAt = 300, rec_status = UPLOADING \<rparr>"

section \<open>Lemmas about traces and handlers\<close>

lemma log_levels_append: "log_levels (xs @ ys) = log_levels xs @ log_levels ys"
  by (induction xs rule: log_levels.induct) simp_all

lemma upload_bodies_append: "upload_bodies (xs @ ys) = upload_bodies xs @ upload_bodies ys"
  by (induction xs rule: upload_bodies.induct) simp_all

lemma boundary_tags_append: "boundary_tags (xs @ ys) = boundary_tags xs @ boundary_tags ys"
  by (induction xs rule: boundary_tags.induct) simp_all

lemma boundary_tags_puts: "boundary_tags (map (\<lambda>m. PutFile (f m)) ms) = []"
  by (induction ms) simp_all

lemma boundary_tags_logs: "boundary_tags (map (\<lambda>x. Log (f x) lv (g x)) xs) = []"
  by (induction xs) simp_all

lemma upload_bodies_puts: "upload_bodies (map (\<lambda>m. PutFile (f m)) ms) = []"
  by (induction ms) simp_all

lemma upload_bodies_logs: "upload_bodies (map (\<lambda>x. Log (f x) lv (g x)) xs) = []"
  by (induction xs) simp_all

lemma no_uploaded_iff:
  "(filter (\<lambda>f. status f = Uploaded) ms = []) = (\<not> list_ex (\<lambda>f. status f = Uploaded) ms)"
  by (simp add: filter_empty_conv list_ex_iff)

lemma upload_tags:
  "boundary_tags (trace (handleUploadOnly s r d t)) =
     (if filteredFiles s = [] then [] else [UpReq, UpSettled])"
  by (simp add: handleUploadOnly_def uploadFiles_def Let_def boundary_tags_append
      boundary_tags_puts boundary_tags_logs comp_def split: sum.splits)

lemma process_tags:
  "boundary_tags (trace (handleProcessOnly s r d t)) =
     (if list_ex (\<lambda>f. status f = Uploaded) (fileMetadata s) then [ProcReq, ProcSettled] else [])"
  by (simp add: handleProcessOnly_def processUploaded_def Let_def boundary_tags_append
      boundary_tags_puts boundary_tags_logs no_uploaded_iff comp_def split: sum.splits)

lemma upload_state:
  "fileMetadata (next_render s (handleUploadOnly s r d t)) =
     (if filteredFiles s = [] then fileMetadata s
      else case upload_attempt r of
             Inl message \<Rightarrow> map (mark_error message) (fileMetadata s)
           | Inr u \<Rightarrow> map (mark_uploaded t d) (fileMetadata s))"
  by (simp add: handleUploadOnly_def next_render_def Let_def split: sum.splits)

lemma process_state:
  "fileMetadata (next_render s (handleProcessOnly s r d t)) =
     (if \<not> list_ex (\<lambda>f. status f = Uploaded) (fileMetadata s) then fileMetadata s
      else case process_attempt r of
             Inl message \<Rightarrow> map (mark_error message) (fileMetadata s)
           | Inr u \<Rightarrow> map (mark_processed t d) (fileMetadata s))"
  by (simp add: handleProcessOnly_def next_render_def Let_def no_uploaded_iff split: sum.splits)

lemma combined_upload_only:
  "\<not> list_ex (\<lambda>f. status f = Uploaded) (fileMetadata s) \<Longrightarrow>
   handleUploadAndProcess s r d t pr pd pt = handleUploadOnly s r d t"
  by (simp add: handleUploadAndProcess_def Let_def)

lemma combined_process_only:
  "filteredFiles s = [] \<Longrightarrow>
   fileMetadata (next_render s (handleUploadAndProcess s r d t pr pd pt)) =
     fileMetadata (next_render s (handleProcessOnly s pr pd pt))"
  by (simp add: handleUploadAndProcess_def handleUploadOnly_def handleProcessOnly_def
      next_render_def no_uploaded_iff Let_def split: sum.splits)

lemma retries_mark_error: "retries (mark_error message m) = retries m + 1"
  by (simp add: retries_def mark_error_def bump_retryCount_def)

lemma retryCount_mark_uploaded: "retryCount (mark_uploaded t d m) = retryCount m"
  by (simp add: mark_uploaded_def)

lemma retryCount_mark_processed: "retryCount (mark_processed t d m) = retryCount m"
  by (simp add: mark_processed_def)

lemma save_files_names: "map name (fst (save_files post i xs)) = map (\<lambda>x. name (snd x)) xs"
proof (induction xs arbitrary: i)
  case Nil
  then show ?case by simp
next
  case (Cons x xs)
  show ?case
    using Cons.IH[of "Suc i"]
    by (cases x; cases "post i"; cases "save_files post (Suc i) xs") simp_all
qed

lemma save_files_status: "map status (fst (save_files post i xs)) = map (\<lambda>x. status (snd x)) xs"
proof (induction xs arbitrary: i)
  case Nil
  then show ?case by simp
next
  case (Cons x xs)
  show ?case
    using Cons.IH[of "Suc i"]
    by (cases x; cases "post i"; cases "save_files post (Suc i) xs") simp_all
qed

lemma save_files_posted: "posted (snd (save_files post i xs)) = map snd xs"
proof (induction xs arbitrary: i)
  case Nil
  then show ?case by simp
next
  case (Cons x xs)
  show ?case
    using Cons.IH[of "Suc i"]
    by (cases x; cases "post i"; cases "save_files post (Suc i) xs") simp_all
qed

lemma save_files_levels: "set (log_levels (snd (save_files post i xs))) \<subseteq> {Info}"
proof (induction xs arbitrary: i)
  case Nil
  then show ?case by simp
next
  case (Cons x xs)
  show ?case
    using Cons.IH[of "Suc i"]
    by (cases x; cases "post i"; cases "save_files post (Suc i) xs") auto
qed

lemma save_files_levels_length: "length (log_levels (snd (save_files post i xs))) \<le> length xs"
proof (induction xs arbitrary: i)
  case Nil
  then show ?case by simp
next
  case (Cons x xs)
  show ?case
    using Cons.IH[of "Suc i"]
    by (cases x; cases "post i"; cases "save_files post (Suc i) xs") simp_all
qed

lemma upload_loop_rows:
  "fst (upload_loop resp iso_now local_now ua i fs) =
     map (\<lambda>(k, f). upload_row f (local_now k) ua (resp k)) (enumerate i fs)"
proof (induction fs arbitrary: i)
  case Nil
  then show ?case by simp
next
  case (Cons f fs)
  show ?case
    using Cons.IH[of "Suc i"]
    by (cases "upload_loop resp iso_now local_now ua (Suc i) fs") (simp add: enumerate_simps)
qed

lemma upload_loop_bodies:
  "upload_bodies (snd (upload_loop resp iso_now local_now ua i fs)) =
     map (\<lambda>(k, f). app_formData f (iso_now k) ua) (enumerate i fs)"
proof (induction fs arbitrary: i)
  case Nil
  then show ?case by simp
next
  case (Cons f fs)
  show ?case
    using Cons.IH[of "Suc i"]
    by (cases "upload_loop resp iso_now local_now ua (Suc i) fs") (simp add: enumerate_simps)
qed

lemma upload_loop_tags:
  "boundary_tags (snd (upload_loop resp iso_now local_now ua i fs)) =
     concat (replicate (length fs) [UpReq, UpSettled])"
proof (induction fs arbitrary: i)
  case Nil
  then show ?case by simp
next
  case (Cons f fs)
  show ?case
    using Cons.IH[of "Suc i"]
    by (cases "upload_loop resp iso_now local_now ua (Suc i) fs") (simp add: enumerate_simps)
qed

lemma upload_loop_levels:
  "log_levels (snd (upload_loop resp iso_now local_now ua i fs)) = []"
proof (induction fs arbitrary: i)
  case Nil
  then show ?case by simp
next
  case (Cons f fs)
  show ?case
    using Cons.IH[of "Suc i"]
    by (cases "upload_loop resp iso_now local_now ua (Suc i) fs") (simp add: enumerate_simps)
qed

section \<open>Facts about the scenarios\<close>

lemma supported_a: "isSupportedFile file_a" by code_simp
lemma supported_b: "isSupportedFile file_b" by code_simp
lemma unsupported_c: "\<not> isSupportedFile file_c" by code_simp
lemma app_supported_a: "app_supported file_a" by code_simp
lemma app_supported_b: "app_supported file_b" by code_simp
lemma app_unsupported_c: "\<not> app_supported file_c" by code_simp

lemma selected_eq:
  "selected = \<lparr> environment = Local, selectedFiles = [file_a, file_b], fileMetadata = [meta_a, meta_b] \<rparr>"
  by (simp add: selected_def scenario_A_def handleFolderChange_def next_render_def fresh_page_def
      supported_a supported_b unsupported_c enumerate_simps post_ok_def meta_a_def meta_b_def)

lemma filtered_selected: "filteredFiles selected = [file_a, file_b]"
  by (simp add: filteredFiles_def selected_eq supported_a supported_b)

lemma attempt_500:
  "upload_attempt resp_500 = Inl (MsgUploadHttpFailure 500 ''Internal Server Error'')"
  "process_attempt resp_500 = Inl (MsgProcessHttpFailure 500 ''Internal Server Error'')"
  by (simp_all add: upload_attempt_def process_attempt_def resp_500_def)

lemma attempt_200: "upload_attempt resp_200 = Inr ()" "process_attempt resp_200 = Inr ()"
  by (simp_all add: upload_attempt_def process_attempt_def resp_200_def)

lemma upload_failed_eq:
  "fileMetadata upload_failed =
     [mark_error (MsgUploadHttpFailure 500 ''Internal Server Error'') meta_a,
      mark_error (MsgUploadHttpFailure 500 ''Internal Server Error'') meta_b]"
  by (simp add: upload_failed_def upload_state filtered_selected attempt_500) (simp add: selected_eq)

lemma upload_done_eq:
  "fileMetadata upload_done =
     [mark_uploaded ''2025-08-22T12:01:00.000Z'' 40 meta_a,
      mark_uploaded ''2025-08-22T12:01:00.000Z'' 40 meta_b]"
  by (simp add: upload_done_def upload_state filtered_selected attempt_200) (simp add: selected_eq)

lemma meta_status: "status meta_a = Pending" "status meta_b = Pending"
  by (simp_all add: meta_a_def meta_b_def new_metadata_def)

lemma meta_retryCount: "retryCount meta_a = Some 0" "retryCount meta_b = Some 0"
  by (simp_all add: meta_a_def meta_b_def new_metadata_def)

section \<open>Duplicate classification: decision precedence\<close>

lemma processed_priors_eq:
  "processed_priors h hn ps =
     length (filter (\<lambda>r. rec_contentHash r = h \<and> rec_host r = hn \<and> rec_status r = PROCESSED) ps)"
  by (simp add: processed_priors_def same_content_def conj_commute conj_left_commute)

lemma same_content_empty:
  "(same_content h hn ps = []) = (\<forall>r \<in> set ps. \<not> (rec_contentHash r = h \<and> rec_host r = hn))"
  by (simp add: same_content_def filter_empty_conv)

lemma processed_priors_pos: "1 \<le> processed_priors h hn ps \<Longrightarrow> same_content h hn ps \<noteq> []"
  by (auto simp: processed_priors_def)

text \<open>
  Claim C1. \<open>classify(contentHash, host, priorRecords)\<close> returns \<open>NEW\<close> when no prior
  record has the same content hash and host; \<open>OVERWRITE(n)\<close>, with \<open>n\<close> the number of prior
  records of that hash and host that reached \<open>PROCESSED\<close>, when there is at least one such
  record; and \<open>DUPLICATE\<close> when prior records of that hash and host exist but none reached
  \<open>PROCESSED\<close>. Each further prior record of the same content and host that reached
  \<open>PROCESSED\<close> raises the count by one: the first gives \<open>OVERWRITE(1)\<close>, the second
  \<open>OVERWRITE(2)\<close>.
\<close>

theorem classify_precedence:
  "((\<forall>r \<in> set ps. \<not> (rec_contentHash r = h \<and> rec_host r = hn)) \<longrightarrow> classify h hn ps = NEW) \<and>
   (1 \<le> processed_priors h hn ps \<longrightarrow>
      classify h hn ps = OVERWRITE (processed_priors h hn ps)) \<and>
   ((\<exists>r \<in> set ps. rec_contentHash r = h \<and> rec_host r = hn) \<and> processed_priors h hn ps = 0 \<longrightarrow>
      classify h hn ps = DUPLICATE) \<and>
   processed_priors h hn ps =
     length (filter (\<lambda>r. rec_contentHash r = h \<and> rec_host r = hn \<and> rec_status r = PROCESSED) ps) \<and>
   (rec_contentHash p = h \<and> rec_host p = hn \<and> rec_status p = PROCESSED \<longrightarrow>
      classify h hn (ps @ [p]) = OVERWRITE (Suc (processed_priors h hn ps)))"
proof -
  have new: "(\<forall>r \<in> set ps. \<not> (rec_contentHash r = h \<and> rec_host r = hn)) \<longrightarrow> classify h hn ps = NEW"
    by (simp add: classify_def same_content_empty)
  have over: "1 \<le> processed_priors h hn ps \<longrightarrow>
      classify h hn ps = OVERWRITE (processed_priors h hn ps)"
    using processed_priors_pos[of h hn ps] by (simp add: classify_def)
  have dup: "(\<exists>r \<in> set ps. rec_contentHash r = h \<and> rec_host r = hn) \<and> processed_priors h hn ps = 0 \<longrightarrow>
      classify h hn ps = DUPLICATE"
    by (auto simp: classify_def same_content_empty)
  have again: "rec_contentHash p = h \<and> rec_host p = hn \<and> rec_status p = PROCESSED \<longrightarrow>
      classify h hn (ps @ [p]) = OVERWRITE (Suc (processed_priors h hn ps))"
    by (simp add: classify_def same_content_def processed_priors_def)
  show ?thesis using new over dup again processed_priors_eq[of h hn ps] by blast
qed

theorem classify_precedence_witness:
  "classify ''9f86d081'' ''local'' [prior_uploading] = NEW \<and>
   classify ''9f86d081'' ''local'' [prior_uploading, prior_processed_1] = OVERWRITE 1 \<and>
   classify ''9f86d081'' ''local'' ([prior_uploading, prior_processed_1] @ [prior_processed_2]) = OVERWRITE 2 \<and>
   classify ''9f86d081'' ''production'' [prior_uploading, prior_processed_1] = DUPLICATE"
  using classify_precedence[of "[prior_uploading]" "''9f86d081''" "''local''" prior_processed_1]
    classify_precedence[of "[prior_uploading, prior_processed_1]" "''9f86d081''" "''local''" prior_processed_2]
    classify_precedence[of "[prior_uploading, prior_processed_1]" "''9f86d081''" "''production''" prior_processed_2]
  by (simp add: prior_uploading_def prior_processed_1_def prior_processed_2_def)

section \<open>Upload failures: one file or the whole batch\<close>

lemma click_upload_rows:
  "picked \<noteq> [] \<Longrightarrow>
   table_rows (click_upload old_rows old_status picked resp iso_now local_now ua proc) =
     map (\<lambda>(k, f). upload_row f (local_now k) ua (resp k)) (enumerate 0 (filter app_supported picked))"
  using upload_loop_rows[of resp iso_now local_now ua 0 "filter app_supported picked"]
  by (cases "upload_loop resp iso_now local_now ua 0 (filter app_supported picked)")
     (simp add: click_upload_def Let_def)

lemma upload_row_status:
  "row_uploadStatus (upload_row f now ua r) =
     (case r of UploadJson success m \<Rightarrow> if success then StatusSuccess else StatusFailed
              | UploadThrows m \<Rightarrow> StatusError)"
  by (simp add: upload_row_def split: AppUploadResult.splits)

text \<open>
  Claim C2, as amended. In \<open>app.js\<close> every supported file is uploaded by a request of its
  own inside its own \<open>try\<close>: the table gets one row per supported file, and the status of
  the \<open>i\<close>-th row is decided by the answer to the \<open>i\<close>-th request alone (\<open>Failed\<close> or
  \<open>Error\<close> exactly when that request failed). In the web client the supported files of
  the batch go out in one request; when that request fails, every record of the page is
  set to the error status.
\<close>

theorem upload_failure_scope:
  "(picked \<noteq> [] \<and> i < length (filter app_supported picked) \<longrightarrow>
      length (table_rows (click_upload old_rows old_status picked resp iso_now local_now ua proc)) =
        length (filter app_supported picked) \<and>
      table_rows (click_upload old_rows old_status picked resp iso_now local_now ua proc) ! i =
        upload_row (filter app_supported picked ! i) (local_now i) ua (resp i) \<and>
      row_uploadStatus
          (table_rows (click_upload old_rows old_status picked resp iso_now local_now ua proc) ! i) =
        (case resp i of
           UploadJson success m \<Rightarrow> if success then StatusSuccess else StatusFailed
         | UploadThrows m \<Rightarrow> StatusError)) \<and>
   (filteredFiles s \<noteq> [] \<and> upload_attempt r = Inl message \<longrightarrow>
      fileMetadata (next_render s (handleUploadOnly s r d t)) =
        map (mark_error message) (fileMetadata s)) \<and>
   status (mark_error message m) = Error"
proof -
  have app: "picked \<noteq> [] \<and> i < length (filter app_supported picked) \<longrightarrow>
      length (table_rows (click_upload old_rows old_status picked resp iso_now local_now ua proc)) =
        length (filter app_supported picked) \<and>
      table_rows (click_upload old_rows old_status picked resp iso_now local_now ua proc) ! i =
        upload_row (filter app_supported picked ! i) (local_now i) ua (resp i)"
    by (simp add: click_upload_rows nth_enumerate_eq)
  have web: "filteredFiles s \<noteq> [] \<and> upload_attempt r = Inl message \<longrightarrow>
      fileMetadata (next_render s (handleUploadOnly s r d t)) =
        map (mark_error message) (fileMetadata s)"
    by (simp add: upload_state)
  have st: "status (mark_error message m) = Error"
    by (simp add: mark_error_def)
  show ?thesis using app web st by (simp add: upload_row_status)
qed

theorem upload_failure_scope_witness:
  "row_uploadStatus (table_rows app_run ! 0) = StatusSuccess \<and>
   row_uploadStatus (table_rows app_run ! 1) = StatusError \<and>
   length (table_rows app_run) = 2 \<and>
   fileMetadata upload_failed =
     map (mark_error (MsgUploadHttpFailure 500 ''Internal Server Error'')) [meta_a, meta_b]"
proof -
  have r0: "row_uploadStatus (table_rows app_run ! 0) = StatusSuccess \<and> length (table_rows app_run) = 2"
    using upload_failure_scope[where picked = "[file_a, file_b, file_c]" and i = 0
        and old_rows = "[]" and old_status = StatusEmpty and resp = app_resp and iso_now = app_iso
        and local_now = app_local and ua = "''Mozilla/5.0''" and proc = "ProcessJsonOk 4",
        THEN conjunct1]
    by (simp add: app_run_def app_resp_def app_supported_a app_supported_b app_unsupported_c
        upload_row_def)
  have r1: "row_uploadStatus (table_rows app_run ! 1) = StatusError"
    using upload_failure_scope[where picked = "[file_a, file_b, file_c]" and i = 1
        and old_rows = "[]" and old_status = StatusEmpty and resp = app_resp and iso_now = app_iso
        and local_now = app_local and ua = "''Mozilla/5.0''" and proc = "ProcessJsonOk 4",
        THEN conjunct1]
    by (simp add: app_run_def app_resp_def app_supported_a app_supported_b app_unsupported_c
        upload_row_def)
  have web: "fileMetadata upload_failed =
      map (mark_error (MsgUploadHttpFailure 500 ''Internal Server Error'')) [meta_a, meta_b]"
    using upload_failure_scope[where s = selected and r = resp_500
        and message = "MsgUploadHttpFailure 500 ''Internal Server Error''"
        and d = 40 and t = "''2025-08-22T12:01:00.000Z''", THEN conjunct2, THEN conjunct1]
    by (simp add: upload_failed_def filtered_selected attempt_500) (simp add: selected_eq)
  show ?thesis using r0 r1 web by simp
qed

text \<open>
  Claim C2 as stated fails in the web client: after Scenario A, one failed upload request
  turns both pending records into error records.
\<close>

theorem batch_upload_failure_counterexample:
  "map status (fileMetadata selected) = [Pending, Pending] \<and>
   map status (fileMetadata upload_failed) = [Error, Error]"
  by (simp add: selected_eq upload_failed_eq meta_status mark_error_def)

section \<open>The processing trigger\<close>

lemma process_attempt_fails:
  "(\<exists>message. process_attempt r = Inl message) = (\<forall>resp. r = Fulfilled resp \<longrightarrow> \<not> ok resp)"
  by (cases r) (simp_all add: process_attempt_def)

lemma nth_uploaded_ex:
  "i < length ms \<Longrightarrow> status (ms ! i) = Uploaded \<Longrightarrow> list_ex (\<lambda>f. status f = Uploaded) ms"
  by (auto simp: list_ex_iff)

text \<open>
  Claim C3, as amended. When the processing trigger fails (the response is not ok, or
  the call throws), no record is advanced to processed: every record that was uploaded,
  and so was part of the batch, is set to the error status with the failure's message
  and its \<open>retryCount\<close> raised by one; all its other fields stay as they were. Exactly one
  trigger request was issued.
\<close>

theorem failed_trigger_marks_error:
  assumes "i < length (fileMetadata s)"
    and "status (fileMetadata s ! i) = Uploaded"
    and "process_attempt r = Inl message"
  shows "length (fileMetadata (next_render s (handleProcessOnly s r d t))) = length (fileMetadata s) \<and>
    fileMetadata (next_render s (handleProcessOnly s r d t)) ! i =
      (fileMetadata s ! i)\<lparr>status := Error, errorMessage := Some message,
        retryCount := Some (retries (fileMetadata s ! i) + 1)\<rparr> \<and>
    status (fileMetadata (next_render s (handleProcessOnly s r d t)) ! i) \<noteq> Processed \<and>
    status (fileMetadata (next_render s (handleProcessOnly s r d t)) ! i) \<noteq> Uploaded \<and>
    boundary_tags (trace (handleProcessOnly s r d t)) = [ProcReq, ProcSettled] \<and>
    ((\<exists>message. process_attempt r = Inl message) = (\<forall>resp. r = Fulfilled resp \<longrightarrow> \<not> ok resp))"
proof -
  have ex: "list_ex (\<lambda>f. status f = Uploaded) (fileMetadata s)"
    using assms(1,2) by (rule nth_uploaded_ex)
  have st: "fileMetadata (next_render s (handleProcessOnly s r d t)) =
      map (mark_error message) (fileMetadata s)"
    using ex assms(3) by (simp add: process_state)
  have me: "mark_error message (fileMetadata s ! i) =
      (fileMetadata s ! i)\<lparr>status := Error, errorMessage := Some message,
        retryCount := Some (retries (fileMetadata s ! i) + 1)\<rparr>"
    by (simp add: mark_error_def bump_retryCount_def retries_def)
  have tags: "boundary_tags (trace (handleProcessOnly s r d t)) = [ProcReq, ProcSettled]"
    using ex by (simp add: process_tags)
  show ?thesis
    using st me tags assms(1) process_attempt_fails[of r] by simp
qed

theorem failed_trigger_marks_error_witness:
  "status (fileMetadata upload_done ! 1) = Uploaded \<and>
   status (fileMetadata (next_render upload_done
      (handleProcessOnly upload_done resp_500 50 ''2025-08-22T12:02:00.000Z'')) ! 1) = Error \<and>
   retryCount (fileMetadata (next_render upload_done
      (handleProcessOnly upload_done resp_500 50 ''2025-08-22T12:02:00.000Z'')) ! 1) = Some 1"
  using failed_trigger_marks_error[where s = upload_done and i = 1 and r = resp_500
      and message = "MsgProcessHttpFailure 500 ''Internal Server Error''"
      and d = 50 and t = "''2025-08-22T12:02:00.000Z''"]
  by (simp add: upload_done_eq attempt_500 mark_uploaded_def meta_status meta_retryCount retries_def)

text \<open>
  Claim C3 as stated fails: after a successful upload of Scenario A, a processing call
  answered with status 500 leaves no record uploaded; both become error records.
\<close>

theorem failed_trigger_counterexample:
  "map status (fileMetadata upload_done) = [Uploaded, Uploaded] \<and>
   map status (fileMetadata (next_render upload_done
      (handleProcessOnly upload_done resp_500 50 ''2025-08-22T12:02:00.000Z''))) = [Error, Error]"
  by (simp add: process_state upload_done_eq attempt_500 mark_uploaded_def mark_error_def)

text \<open>
  Claim C4 at a page loaded from the store, with \<open>a.txt\<close> uploaded and \<open>b.pdf\<close> still
  pending: a successful processing call reports one processed file in its log but marks
  both records processed, and sends a \<open>PUT\<close> for both.
\<close>

theorem trigger_marks_pending_processed:
  "map status (fileMetadata loaded_page) = [Uploaded, Pending] \<and>
   map status (fileMetadata (next_render loaded_page
      (handleProcessOnly loaded_page resp_200 50 ''2025-08-22T12:02:00.000Z''))) =
     [Processed, Processed] \<and>
   Log (MsgProcessDone 1 50) Success None
     \<in> set (trace (handleProcessOnly loaded_page resp_200 50 ''2025-08-22T12:02:00.000Z''))"
proof -
  have before: "map status (fileMetadata loaded_page) = [Uploaded, Pending]"
    by (simp add: loaded_page_def mark_uploaded_def meta_status)
  have after: "map status (fileMetadata (next_render loaded_page
      (handleProcessOnly loaded_page resp_200 50 ''2025-08-22T12:02:00.000Z''))) =
     [Processed, Processed]"
    by (simp add: process_state attempt_200 mark_processed_def)
       (simp add: loaded_page_def mark_uploaded_def mark_processed_def)
  have logged: "Log (MsgProcessDone 1 50) Success None
     \<in> set (trace (handleProcessOnly loaded_page resp_200 50 ''2025-08-22T12:02:00.000Z''))"
    by (simp add: handleProcessOnly_def loaded_page_def attempt_200 mark_uploaded_def
        meta_status Let_def)
  show ?thesis using before after logged by simp
qed

section \<open>The retry count\<close>

lemma retries_mark_uploaded: "retries (mark_uploaded t d m) = retries m"
  by (simp add: retries_def mark_uploaded_def)

lemma retries_mark_processed: "retries (mark_processed t d m) = retries m"
  by (simp add: retries_def mark_processed_def)

lemma upload_retries:
  "i < length (fileMetadata s) \<Longrightarrow>
   retries (fileMetadata (next_render s (handleUploadOnly s r d t)) ! i) =
     retries (fileMetadata s ! i) + (if filteredFiles s \<noteq> [] \<and> isl (upload_attempt r) then 1 else 0)"
  by (cases "upload_attempt r")
     (simp_all add: upload_state retries_mark_error retries_mark_uploaded)

lemma process_retries:
  "i < length (fileMetadata s) \<Longrightarrow>
   retries (fileMetadata (next_render s (handleProcessOnly s r d t)) ! i) =
     retries (fileMetadata s ! i) +
       (if list_ex (\<lambda>f. status f = Uploaded) (fileMetadata s) \<and> isl (process_attempt r) then 1 else 0)"
  by (cases "process_attempt r")
     (simp_all add: process_state retries_mark_error retries_mark_processed)

lemma upload_success_retryCount:
  "i < length (fileMetadata s) \<Longrightarrow> upload_attempt r = Inr u \<Longrightarrow>
   retryCount (fileMetadata (next_render s (handleUploadOnly s r d t)) ! i) =
     retryCount (fileMetadata s ! i)"
  by (simp add: upload_state retryCount_mark_uploaded)

lemma process_success_retryCount:
  "i < length (fileMetadata s) \<Longrightarrow> process_attempt r = Inr u \<Longrightarrow>
   retryCount (fileMetadata (next_render s (handleProcessOnly s r d t)) ! i) =
     retryCount (fileMetadata s ! i)"
  by (simp add: process_state retryCount_mark_processed)

text \<open>
  Claim C5, as amended. A record is registered with \<open>retryCount\<close> 0. A run of
  \<open>handleUploadOnly\<close> whose upload attempt fails, and a run of \<open>handleProcessOnly\<close> whose
  processing attempt fails, raises the \<open>retryCount\<close> of a record by exactly one; a run
  whose attempt succeeds, and a run that makes no attempt, leaves it as it is. So under
  these two handlers the count never decreases and stays \<open>\<ge> 0\<close>; it is not reset to 0
  by a success. The same holds for a run of \<open>handleUploadAndProcess\<close> that takes only one
  of its two steps (no record is uploaded at its start, or no supported file is
  selected). A run of \<open>handleUploadAndProcess\<close> that takes both steps is not covered.
\<close>

theorem retryCount_steps:
  assumes "i < length (fileMetadata s)"
  shows "retries (new_metadata env nowIso info index file) = 0 \<and>
    retries (fileMetadata (next_render s (handleUploadOnly s r d t)) ! i) =
      retries (fileMetadata s ! i) +
        (if filteredFiles s \<noteq> [] \<and> isl (upload_attempt r) then 1 else 0) \<and>
    retries (fileMetadata (next_render s (handleProcessOnly s r d t)) ! i) =
      retries (fileMetadata s ! i) +
        (if list_ex (\<lambda>f. status f = Uploaded) (fileMetadata s) \<and> isl (process_attempt r)
         then 1 else 0) \<and>
    (upload_attempt r = Inr () \<longrightarrow>
       retryCount (fileMetadata (next_render s (handleUploadOnly s r d t)) ! i) =
         retryCount (fileMetadata s ! i)) \<and>
    (process_attempt r = Inr () \<longrightarrow>
       retryCount (fileMetadata (next_render s (handleProcessOnly s r d t)) ! i) =
         retryCount (fileMetadata s ! i)) \<and>
    retries (fileMetadata s ! i) \<le>
      retries (fileMetadata (next_render s (handleUploadOnly s r d t)) ! i) \<and>
    retries (fileMetadata s ! i) \<le>
      retries (fileMetadata (next_render s (handleProcessOnly s r d t)) ! i) \<and>
    (0 \<le> retries (fileMetadata s ! i) \<longrightarrow>
       0 \<le> retries (fileMetadata (next_render s (handleUploadOnly s r d t)) ! i) \<and>
       0 \<le> retries (fileMetadata (next_render s (handleProcessOnly s r d t)) ! i)) \<and>
    (\<not> list_ex (\<lambda>f. status f = Uploaded) (fileMetadata s) \<longrightarrow>
       retries (fileMetadata (next_render s (handleUploadAndProcess s r d t pr pd pt)) ! i) =
         retries (fileMetadata s ! i) +
           (if filteredFiles s \<noteq> [] \<and> isl (upload_attempt r) then 1 else 0)) \<and>
    (filteredFiles s = [] \<longrightarrow>
       retries (fileMetadata (next_render s (handleUploadAndProcess s r d t pr pd pt)) ! i) =
         retries (fileMetadata s ! i) +
           (if list_ex (\<lambda>f. status f = Uploaded) (fileMetadata s) \<and> isl (process_attempt pr)
            then 1 else 0))"
proof -
  have new: "retries (new_metadata env nowIso info index file) = 0"
    by (simp add: retries_def new_metadata_def)
  note up = upload_retries[OF assms, of r d t]
  note pr = process_retries[OF assms, of r d t]
  have ups: "upload_attempt r = Inr () \<longrightarrow>
       retryCount (fileMetadata (next_render s (handleUploadOnly s r d t)) ! i) =
         retryCount (fileMetadata s ! i)"
    using upload_success_retryCount[OF assms] by blast
  have prs: "process_attempt r = Inr () \<longrightarrow>
       retryCount (fileMetadata (next_render s (handleProcessOnly s r d t)) ! i) =
         retryCount (fileMetadata s ! i)"
    using process_success_retryCount[OF assms] by blast
  have one_up: "\<not> list_ex (\<lambda>f. status f = Uploaded) (fileMetadata s) \<longrightarrow>
       retries (fileMetadata (next_render s (handleUploadAndProcess s r d t pr pd pt)) ! i) =
         retries (fileMetadata s ! i) +
           (if filteredFiles s \<noteq> [] \<and> isl (upload_attempt r) then 1 else 0)"
    using up by (simp add: combined_upload_only)
  have one_pr: "filteredFiles s = [] \<longrightarrow>
       retries (fileMetadata (next_render s (handleUploadAndProcess s r d t pr pd pt)) ! i) =
         retries (fileMetadata s ! i) +
           (if list_ex (\<lambda>f. status f = Uploaded) (fileMetadata s) \<and> isl (process_attempt pr)
            then 1 else 0)"
    using process_retries[OF assms, of pr pd pt] by (simp add: combined_process_only)
  have base: "retries (new_metadata env nowIso info index file) = 0 \<and>
    retries (fileMetadata (next_render s (handleUploadOnly s r d t)) ! i) =
      retries (fileMetadata s ! i) +
        (if filteredFiles s \<noteq> [] \<and> isl (upload_attempt r) then 1 else 0) \<and>
    retries (fileMetadata (next_render s (handleProcessOnly s r d t)) ! i) =
      retries (fileMetadata s ! i) +
        (if list_ex (\<lambda>f. status f = Uploaded) (fileMetadata s) \<and> isl (process_attempt r)
         then 1 else 0) \<and>
    (upload_attempt r = Inr () \<longrightarrow>
       retryCount (fileMetadata (next_render s (handleUploadOnly s r d t)) ! i) =
         retryCount (fileMetadata s ! i)) \<and>
    (process_attempt r = Inr () \<longrightarrow>
       retryCount (fileMetadata (next_render s (handleProcessOnly s r d t)) ! i) =
         retryCount (fileMetadata s ! i)) \<and>
    retries (fileMetadata s ! i) \<le>
      retries (fileMetadata (next_render s (handleUploadOnly s r d t)) ! i) \<and>
    retries (fileMetadata s ! i) \<le>
      retries (fileMetadata (next_render s (handleProcessOnly s r d t)) ! i) \<and>
    (0 \<le> retries (fileMetadata s ! i) \<longrightarrow>
       0 \<le> retries (fileMetadata (next_render s (handleUploadOnly s r d t)) ! i) \<and>
       0 \<le> retries (fileMetadata (next_render s (handleProcessOnly s r d t)) ! i))"
    using new up pr ups prs by simp
  show ?thesis using base one_up one_pr by blast
qed

theorem retryCount_steps_witness:
  "retries (fileMetadata selected ! 0) = 0 \<and>
   retries (fileMetadata upload_failed ! 0) = 1 \<and>
   retries (fileMetadata (next_render upload_failed
      (handleUploadOnly upload_failed resp_200 35 ''2025-08-22T12:03:00.000Z'')) ! 0) = 1"
proof -
  have sel: "retries (fileMetadata selected ! 0) = 0"
    by (simp add: selected_eq retries_def meta_retryCount)
  have i0: "0 < length (fileMetadata selected)" by (simp add: selected_eq)
  have failed: "retries (fileMetadata upload_failed ! 0) = 1"
    using retryCount_steps[OF i0, of Local "[]" browser 0 file_a resp_500 40
        "''2025-08-22T12:01:00.000Z''"] sel
    by (simp add: upload_failed_def filtered_selected attempt_500)
  have i1: "0 < length (fileMetadata upload_failed)" by (simp add: upload_failed_eq)
  have "retries (fileMetadata (next_render upload_failed
      (handleUploadOnly upload_failed resp_200 35 ''2025-08-22T12:03:00.000Z'')) ! 0) = 1"
    using retryCount_steps[OF i1, of Local "[]" browser 0 file_a resp_200 35
        "''2025-08-22T12:03:00.000Z''"] failed
    by (simp add: attempt_200)
  then show ?thesis using sel failed by simp
qed

text \<open>
  Claim C5 as stated fails: after the failed upload of Scenario A both records have
  \<open>retryCount\<close> 1, and a following successful upload leaves them uploaded with
  \<open>retryCount\<close> 1, not 0.
\<close>

theorem retryCount_not_reset_counterexample:
  "map retryCount (fileMetadata upload_failed) = [Some 1, Some 1] \<and>
   map status (fileMetadata (next_render upload_failed
      (handleUploadOnly upload_failed resp_200 35 ''2025-08-22T12:03:00.000Z''))) =
     [Uploaded, Uploaded] \<and>
   map retryCount (fileMetadata (next_render upload_failed
      (handleUploadOnly upload_failed resp_200 35 ''2025-08-22T12:03:00.000Z''))) =
     [Some 1, Some 1]"
proof -
  have ff: "filteredFiles upload_failed = [file_a, file_b]"
    by (simp add: upload_failed_def next_render_def handleUploadOnly_def filtered_selected
        attempt_500 filteredFiles_def Let_def)
       (simp add: selected_eq supported_a supported_b)
  show ?thesis
    by (simp add: upload_state ff attempt_200)
       (simp add: upload_failed_eq mark_error_def mark_uploaded_def bump_retryCount_def
          meta_retryCount)
qed

section \<open>The upload request\<close>

lemma click_upload_bodies:
  "picked \<noteq> [] \<Longrightarrow>
   upload_bodies (app_trace (click_upload old_rows old_status picked resp iso_now local_now ua proc)) =
     map (\<lambda>(k, f). app_formData f (iso_now k) ua) (enumerate 0 (filter app_supported picked))"
  using upload_loop_bodies[of resp iso_now local_now ua 0 "filter app_supported picked"]
  by (cases "upload_loop resp iso_now local_now ua 0 (filter app_supported picked)")
     (simp add: click_upload_def Let_def upload_bodies_append)

lemma click_upload_tags:
  "picked \<noteq> [] \<Longrightarrow>
   boundary_tags (app_trace (click_upload old_rows old_status picked resp iso_now local_now ua proc)) =
     concat (replicate (length (filter app_supported picked)) [UpReq, UpSettled])
       @ [ProcReq, ProcSettled]"
  using upload_loop_tags[of resp iso_now local_now ua 0 "filter app_supported picked"]
  by (cases "upload_loop resp iso_now local_now ua 0 (filter app_supported picked)")
     (simp add: click_upload_def Let_def boundary_tags_append)

lemma click_upload_levels:
  "log_levels (app_trace (click_upload old_rows old_status picked resp iso_now local_now ua proc)) = []"
  using upload_loop_levels[of resp iso_now local_now ua 0 "filter app_supported picked"]
  by (cases "upload_loop resp iso_now local_now ua 0 (filter app_supported picked)")
     (simp add: click_upload_def Let_def log_levels_append)

lemma web_upload_bodies:
  "upload_bodies (trace (handleUploadOnly s r d t)) =
     (if filteredFiles s = [] then [] else [uploadFiles_formData s])"
  by (simp add: handleUploadOnly_def uploadFiles_def Let_def upload_bodies_append
      upload_bodies_puts upload_bodies_logs comp_def split: sum.splits)

lemma web_form_fields:
  "map fst (uploadFiles_formData s) = replicate (length (filteredFiles s)) ''files''"
  by (simp add: uploadFiles_formData_def comp_def map_replicate_const)

text \<open>
  Claim C6, as amended. Every upload request of \<open>app.js\<close> is a form body with one file
  part \<open>file\<close> and the three metadata fields \<open>uploaded_at\<close> (the \<open>toISOString\<close> text of
  that moment), \<open>uploaded_by\<close> and \<open>original_path\<close>. The web client issues at most one
  upload request per run of \<open>handleUploadOnly\<close>; its form body holds one part \<open>files\<close>
  per supported selected file and nothing else, so none of the three metadata fields.
\<close>

theorem upload_form_fields:
  "(picked \<noteq> [] \<longrightarrow>
      upload_bodies (app_trace (click_upload old_rows old_status picked resp iso_now local_now ua proc)) =
        map (\<lambda>(k, f). app_formData f (iso_now k) ua) (enumerate 0 (filter app_supported picked))) \<and>
   map fst (app_formData f now ua) = [''file'', ''uploaded_at'', ''uploaded_by'', ''original_path''] \<and>
   map_of (app_formData f now ua) ''uploaded_at'' = Some (TextPart now) \<and>
   map_of (app_formData f now ua) ''uploaded_by'' = Some (TextPart ua) \<and>
   upload_bodies (trace (handleUploadOnly s r d t)) =
     (if filteredFiles s = [] then [] else [uploadFiles_formData s]) \<and>
   map fst (uploadFiles_formData s) = replicate (length (filteredFiles s)) ''files'' \<and>
   ''uploaded_at'' \<notin> fst ` set (uploadFiles_formData s) \<and>
   ''uploaded_by'' \<notin> fst ` set (uploadFiles_formData s) \<and>
   ''original_path'' \<notin> fst ` set (uploadFiles_formData s)"
proof -
  have app: "picked \<noteq> [] \<longrightarrow>
      upload_bodies (app_trace (click_upload old_rows old_status picked resp iso_now local_now ua proc)) =
        map (\<lambda>(k, f). app_formData f (iso_now k) ua) (enumerate 0 (filter app_supported picked))"
    by (simp add: click_upload_bodies)
  have fields: "map fst (app_formData f now ua) =
      [''file'', ''uploaded_at'', ''uploaded_by'', ''original_path'']"
    "map_of (app_formData f now ua) ''uploaded_at'' = Some (TextPart now)"
    "map_of (app_formData f now ua) ''uploaded_by'' = Some (TextPart ua)"
    by (simp_all add: app_formData_def)
  have none: "''uploaded_at'' \<notin> fst ` set (uploadFiles_formData s)"
    "''uploaded_by'' \<notin> fst ` set (uploadFiles_formData s)"
    "''original_path'' \<notin> fst ` set (uploadFiles_formData s)"
    by (auto simp: uploadFiles_formData_def)
  show ?thesis
    using app fields none web_upload_bodies[of s r d t] web_form_fields[of s] by simp
qed

theorem upload_form_fields_witness:
  "map (map fst) (upload_bodies (app_trace app_run)) =
     [[''file'', ''uploaded_at'', ''uploaded_by'', ''original_path''],
      [''file'', ''uploaded_at'', ''uploaded_by'', ''original_path'']] \<and>
   upload_bodies (trace (handleUploadOnly selected resp_200 40 ''2025-08-22T12:01:00.000Z'')) =
     [[(''files'', FilePart file_a ''a.txt''), (''files'', FilePart file_b ''b.pdf'')]]"
proof -
  have app: "map (map fst) (upload_bodies (app_trace app_run)) =
     [[''file'', ''uploaded_at'', ''uploaded_by'', ''original_path''],
      [''file'', ''uploaded_at'', ''uploaded_by'', ''original_path'']]"
    using upload_form_fields[where picked = "[file_a, file_b, file_c]" and old_rows = "[]"
        and old_status = StatusEmpty and resp = app_resp and iso_now = app_iso
        and local_now = app_local and ua = "''Mozilla/5.0''" and proc = "ProcessJsonOk 4",
        THEN conjunct1]
    by (simp add: app_run_def app_supported_a app_supported_b app_unsupported_c enumerate_simps
        app_formData_def)
  have web: "upload_bodies (trace (handleUploadOnly selected resp_200 40 ''2025-08-22T12:01:00.000Z'')) =
     [[(''files'', FilePart file_a ''a.txt''), (''files'', FilePart file_b ''b.pdf'')]]"
    by (simp add: web_upload_bodies filtered_selected uploadFiles_formData_def file_a_def file_b_def)
  show ?thesis using app web by simp
qed

text \<open>
  Claim C6 as stated fails in the web client: the upload request for Scenario A carries
  the two file parts only.
\<close>

theorem upload_without_metadata_counterexample:
  "upload_bodies (trace (handleUploadOnly selected resp_200 40 ''2025-08-22T12:01:00.000Z'')) =
     [[(''files'', FilePart file_a ''a.txt''), (''files'', FilePart file_b ''b.pdf'')]]"
  by (simp add: web_upload_bodies filtered_selected uploadFiles_formData_def file_a_def file_b_def)

section \<open>Upload and process: the order of the calls\<close>

lemma upload_and_process_tags:
  "boundary_tags (trace (handleUploadAndProcess s ur ud ut pr pd pt)) =
     (if filteredFiles s = [] then [] else [UpReq, UpSettled]) @
     (if list_ex (\<lambda>f. status f = Uploaded) (fileMetadata s) then [ProcReq, ProcSettled] else [])"
  by (simp add: handleUploadAndProcess_def Let_def boundary_tags_append upload_tags process_tags)

text \<open>
  Claim C7 on Scenario A. On the fresh selection every upload of the run succeeds, and
  the next render shows both records uploaded; yet the run of \<open>handleUploadAndProcess\<close>
  issues the upload request and no processing trigger, because its test
  \<open>fileMetadata.some(f => f.status === "uploaded")\<close> reads the records of the render the
  handler belongs to, which are still pending. \<open>handleProcessOnly\<close> of the next render
  does issue the trigger, and the click of \<open>app.js\<close> on the same folder issues exactly one
  trigger after its two uploads have settled.
\<close>

theorem fresh_upload_issues_no_trigger:
  "map status (fileMetadata selected) = [Pending, Pending] \<and>
   boundary_tags (trace (handleUploadAndProcess selected resp_200 40 ''2025-08-22T12:01:00.000Z''
      resp_200 50 ''2025-08-22T12:02:00.000Z'')) = [UpReq, UpSettled] \<and>
   map status (fileMetadata (next_render selected
      (handleUploadAndProcess selected resp_200 40 ''2025-08-22T12:01:00.000Z''
         resp_200 50 ''2025-08-22T12:02:00.000Z''))) = [Uploaded, Uploaded] \<and>
   boundary_tags (trace (handleProcessOnly upload_done resp_200 50 ''2025-08-22T12:02:00.000Z'')) =
     [ProcReq, ProcSettled] \<and>
   boundary_tags (app_trace app_run) = [UpReq, UpSettled, UpReq, UpSettled, ProcReq, ProcSettled]"
proof -
  have pending: "map status (fileMetadata selected) = [Pending, Pending]"
    by (simp add: selected_eq meta_status)
  have guard: "\<not> list_ex (\<lambda>f. status f = Uploaded) (fileMetadata selected)"
    by (simp add: selected_eq meta_status)
  have tags: "boundary_tags (trace (handleUploadAndProcess selected resp_200 40
      ''2025-08-22T12:01:00.000Z'' resp_200 50 ''2025-08-22T12:02:00.000Z'')) = [UpReq, UpSettled]"
    using guard by (simp add: upload_and_process_tags filtered_selected)
  have run: "handleUploadAndProcess selected resp_200 40 ''2025-08-22T12:01:00.000Z''
      resp_200 50 ''2025-08-22T12:02:00.000Z'' =
      handleUploadOnly selected resp_200 40 ''2025-08-22T12:01:00.000Z''"
    using guard by (rule combined_upload_only)
  have uploaded: "map status (fileMetadata (next_render selected
      (handleUploadAndProcess selected resp_200 40 ''2025-08-22T12:01:00.000Z''
         resp_200 50 ''2025-08-22T12:02:00.000Z''))) = [Uploaded, Uploaded]"
    using upload_done_eq by (simp add: run upload_done_def mark_uploaded_def)
  have later: "boundary_tags (trace (handleProcessOnly upload_done resp_200 50
      ''2025-08-22T12:02:00.000Z'')) = [ProcReq, ProcSettled]"
    by (simp add: process_tags upload_done_eq mark_uploaded_def)
  have app: "boundary_tags (app_trace app_run) =
      [UpReq, UpSettled, UpReq, UpSettled, ProcReq, ProcSettled]"
    by (simp add: app_run_def click_upload_tags app_supported_a app_supported_b
        app_unsupported_c)
  show ?thesis using pending tags uploaded later app by simp
qed

section \<open>Selecting a folder: unsupported files\<close>

lemma zip_new_names:
  "map (\<lambda>x. name (snd x))
     (zip fs (map (\<lambda>(index, file). new_metadata env nowIso info index file) (enumerate n fs))) =
   map file_name fs"
  by (induction fs arbitrary: n) (simp_all add: enumerate_simps new_metadata_def)

lemma zip_new_status:
  "map (\<lambda>x. status (snd x))
     (zip fs (map (\<lambda>(index, file). new_metadata env nowIso info index file) (enumerate n fs))) =
   replicate (length fs) Pending"
  by (induction fs arbitrary: n) (simp_all add: enumerate_simps new_metadata_def)

lemma new_names:
  "map (\<lambda>x. name (case x of (index, file) \<Rightarrow> new_metadata env nowIso info index file))
     (enumerate n fs) = map file_name fs"
  by (induction fs arbitrary: n) (simp_all add: enumerate_simps new_metadata_def)

lemma new_status:
  "map (\<lambda>x. status (case x of (index, file) \<Rightarrow> new_metadata env nowIso info index file))
     (enumerate n fs) = replicate (length fs) Pending"
  by (induction fs arbitrary: n) (simp_all add: enumerate_simps new_metadata_def)

lemma folder_outcome:
  "handleFolderChange s (Some folder) nowIso info post =
     \<lparr> set_selectedFiles = Some (filter isSupportedFile folder),
       set_fileMetadata = Some (fst (save_files post 0 (zip (filter isSupportedFile folder)
          (map (\<lambda>(index, file). new_metadata (environment s) nowIso info index file)
             (enumerate 0 (filter isSupportedFile folder)))))),
       trace = Log (MsgFolderSelected (length (filter isSupportedFile folder)) (length folder)) Info None
         # snd (save_files post 0 (zip (filter isSupportedFile folder)
          (map (\<lambda>(index, file). new_metadata (environment s) nowIso info index file)
             (enumerate 0 (filter isSupportedFile folder))))) \<rparr>"
  by (simp add: handleFolderChange_def Let_def split: prod.splits)

lemma click_upload_names:
  "picked \<noteq> [] \<Longrightarrow>
   map row_name (table_rows (click_upload old_rows old_status picked resp iso_now local_now ua proc)) =
     map file_name (filter app_supported picked)"
proof -
  have "map row_name (map (\<lambda>(k, f). upload_row f (local_now k) ua (resp k)) (enumerate n fs)) =
      map file_name fs" for n fs
    by (induction fs arbitrary: n)
       (simp_all add: enumerate_simps upload_row_def split: AppUploadResult.splits)
  then show "picked \<noteq> [] \<Longrightarrow> ?thesis" by (simp add: click_upload_rows)
qed

text \<open>
  Claim C8, as amended. For every folder selection, the records registered are exactly
  those of the files with a supported extension, in order, each with the pending
  status, and exactly these are posted to the store; a file with an unsupported
  extension is not among the selected files and gets no record. Every log entry of the
  selection has level info (one summary entry and at most one entry per supported
  file): an unsupported file produces no warning entry. In \<open>app.js\<close> the table has a
  row for each supported file only, and nothing is logged.
\<close>

theorem unsupported_files_filtered:
  "map name (fileMetadata (next_render s (handleFolderChange s (Some folder) nowIso info post))) =
     map file_name (filter isSupportedFile folder) \<and>
   map status (fileMetadata (next_render s (handleFolderChange s (Some folder) nowIso info post))) =
     replicate (length (filter isSupportedFile folder)) Pending \<and>
   selectedFiles (next_render s (handleFolderChange s (Some folder) nowIso info post)) =
     filter isSupportedFile folder \<and>
   map name (posted (trace (handleFolderChange s (Some folder) nowIso info post))) =
     map file_name (filter isSupportedFile folder) \<and>
   map status (posted (trace (handleFolderChange s (Some folder) nowIso info post))) =
     replicate (length (filter isSupportedFile folder)) Pending \<and>
   set (log_levels (trace (handleFolderChange s (Some folder) nowIso info post))) = {Info} \<and>
   length (log_levels (trace (handleFolderChange s (Some folder) nowIso info post))) \<le>
     1 + length (filter isSupportedFile folder) \<and>
   (\<not> isSupportedFile f \<longrightarrow>
      f \<notin> set (selectedFiles (next_render s (handleFolderChange s (Some folder) nowIso info post)))) \<and>
   (picked \<noteq> [] \<longrightarrow>
      map row_name (table_rows (click_upload old_rows old_status picked resp iso_now local_now ua proc)) =
        map file_name (filter app_supported picked)) \<and>
   log_levels (app_trace (click_upload old_rows old_status picked resp iso_now local_now ua proc)) = []"
proof -
  let ?sup = "filter isSupportedFile folder"
  let ?zs = "zip ?sup (map (\<lambda>(index, file). new_metadata (environment s) nowIso info index file)
             (enumerate 0 ?sup))"
  let ?out = "handleFolderChange s (Some folder) nowIso info post"
  have len: "length ?zs = length ?sup" by simp
  have names: "map name (fileMetadata (next_render s ?out)) = map file_name ?sup"
    by (simp add: folder_outcome next_render_def save_files_names zip_new_names)
  have stat: "map status (fileMetadata (next_render s ?out)) = replicate (length ?sup) Pending"
    by (simp add: folder_outcome next_render_def save_files_status zip_new_status)
  have sel: "selectedFiles (next_render s ?out) = ?sup"
    by (simp add: folder_outcome next_render_def)
  have post: "map name (posted (trace ?out)) = map file_name ?sup"
    by (simp add: folder_outcome save_files_posted comp_def new_names)
  have post_status: "map status (posted (trace ?out)) = replicate (length ?sup) Pending"
    by (simp add: folder_outcome save_files_posted comp_def new_status)
  have lv: "set (log_levels (trace ?out)) = {Info}"
    using save_files_levels[of post 0 ?zs] by (auto simp: folder_outcome)
  have ln: "length (log_levels (trace ?out)) \<le> 1 + length ?sup"
    using save_files_levels_length[of post 0 ?zs] len by (simp add: folder_outcome)
  have gone: "\<not> isSupportedFile f \<longrightarrow> f \<notin> set (selectedFiles (next_render s ?out))"
    using sel by simp
  have app: "picked \<noteq> [] \<longrightarrow>
      map row_name (table_rows (click_upload old_rows old_status picked resp iso_now local_now ua proc)) =
        map file_name (filter app_supported picked)"
    by (simp add: click_upload_names)
  show ?thesis
    using names stat sel post post_status lv ln gone app
      click_upload_levels[of old_rows old_status picked resp iso_now local_now ua proc]
    by blast
qed

theorem unsupported_files_filtered_witness:
  "map name (fileMetadata selected) = [''a.txt'', ''b.pdf''] \<and>
   file_c \<notin> set (selectedFiles selected) \<and>
   map row_name (table_rows app_run) = [''a.txt'', ''b.pdf'']"
proof -
  have web: "file_c \<notin> set (selectedFiles selected)"
    using unsupported_files_filtered[where s = fresh_page and folder = "[file_a, file_b, file_c]"
        and nowIso = "''2025-08-22T12:00:00.000Z''" and info = browser and post = post_ok
        and f = file_c, THEN conjunct2, THEN conjunct2, THEN conjunct2, THEN conjunct2,
        THEN conjunct2, THEN conjunct2, THEN conjunct2, THEN conjunct1]
    by (simp add: selected_def scenario_A_def unsupported_c)
  have app: "map row_name (table_rows app_run) = [''a.txt'', ''b.pdf'']"
    using unsupported_files_filtered[where picked = "[file_a, file_b, file_c]" and old_rows = "[]"
        and old_status = StatusEmpty and resp = app_resp and iso_now = app_iso
        and local_now = app_local and ua = "''Mozilla/5.0''" and proc = "ProcessJsonOk 4",
        THEN conjunct2, THEN conjunct2, THEN conjunct2, THEN conjunct2,
        THEN conjunct2, THEN conjunct2, THEN conjunct2, THEN conjunct2, THEN conjunct1]
    by (simp add: app_run_def app_supported_a app_supported_b app_unsupported_c)
       (simp add: file_a_def file_b_def)
  have names: "map name (fileMetadata selected) = [''a.txt'', ''b.pdf'']"
    by (simp add: selected_eq meta_a_def meta_b_def new_metadata_def file_a_def file_b_def)
  show ?thesis using web app names by simp
qed

text \<open>
  Claim C8 as stated fails on Scenario A: the selection of \<open>a.txt\<close>, \<open>b.pdf\<close> and
  \<open>c.exe\<close> writes three log entries, all of level info, and none of level warning.
\<close>

theorem no_warning_counterexample:
  "log_levels (trace scenario_A) = [Info, Info, Info]"
  by (simp add: scenario_A_def handleFolderChange_def supported_a supported_b unsupported_c
      enumerate_simps post_ok_def)

section \<open>Deleting file rows: the log table\<close>

lemma delete_logs_length: "length (logs (delete_files_where p store)) = length (logs store)"
  by (simp add: delete_files_where_def Let_def)

lemma delete_log_ids: "map log_id (logs (delete_files_where p store)) = map log_id (logs store)"
  by (simp add: delete_files_where_def Let_def comp_def split: option.splits)

lemma delete_files_left: "files (delete_files_where p store) = filter (\<lambda>r. \<not> p r) (files store)"
  by (simp add: delete_files_where_def Let_def)

text \<open>
  Claim C9. Let a log row reference a file row through \<open>fileId\<close>. Deleting that file row
  (by any delete on the file table, in particular by \<open>DELETE /api/files\<close>, which deletes
  all of them) does not delete the log row: the log table keeps its length and its ids,
  and the row is the same as before except that its \<open>fileId\<close> is null.
\<close>

theorem log_survives_file_delete:
  assumes "i < length (logs store)"
    and "log_fileId (logs store ! i) = Some fid"
    and "fid \<in> set (map id' (filter p (files store)))"
  shows "length (logs (delete_files_where p store)) = length (logs store) \<and>
    map log_id (logs (delete_files_where p store)) = map log_id (logs store) \<and>
    logs (delete_files_where p store) ! i = (logs store ! i)\<lparr>log_fileId := None\<rparr> \<and>
    files (delete_files_where p store) = filter (\<lambda>r. \<not> p r) (files store) \<and>
    (fid \<in> set (map id' (files store)) \<longrightarrow>
       logs (files_DELETE store) ! i = (logs store ! i)\<lparr>log_fileId := None\<rparr> \<and>
       length (logs (files_DELETE store)) = length (logs store) \<and>
       files (files_DELETE store) = [])"
proof -
  have row: "logs (delete_files_where p store) ! i = (logs store ! i)\<lparr>log_fileId := None\<rparr>"
    using assms by (simp add: delete_files_where_def Let_def)
  have all: "fid \<in> set (map id' (files store)) \<longrightarrow>
       logs (files_DELETE store) ! i = (logs store ! i)\<lparr>log_fileId := None\<rparr> \<and>
       length (logs (files_DELETE store)) = length (logs store) \<and>
       files (files_DELETE store) = []"
    using assms(1,2) by (simp add: files_DELETE_def delete_files_where_def Let_def)
  show ?thesis
    using row all delete_logs_length[of p store] delete_log_ids[of p store]
      delete_files_left[of p store]
    by simp
qed

theorem log_survives_file_delete_witness:
  "log_fileId (logs store_1 ! 0) = Some ''db0'' \<and>
   length (logs (files_DELETE store_1)) = 2 \<and>
   log_id (logs (files_DELETE store_1) ! 0) = ''log0'' \<and>
   log_fileId (logs (files_DELETE store_1) ! 0) = None \<and>
   files (files_DELETE store_1) = []"
proof -
  have i: "0 < length (logs store_1)" by (simp add: store_1_def)
  have ref: "log_fileId (logs store_1 ! 0) = Some ''db0''" by (simp add: store_1_def)
  have there: "''db0'' \<in> set (map id' (filter (\<lambda>r. True) (files store_1)))"
    by (simp add: store_1_def row_a_def)
  show ?thesis
    using log_survives_file_delete[OF i ref there] ref
    by (simp add: files_DELETE_def) (simp add: store_1_def)
qed

section \<open>Updating a file row: the time stamps\<close>

lemma nth_id_ex: "i < length rows \<Longrightarrow> id' (rows ! i) = k \<Longrightarrow> list_ex (\<lambda>r. id' r = k) rows"
  by (auto simp: list_ex_iff)

lemma column_value_kept: "(column_value d = Some t) = (d = Some (Date t))"
  by (cases d rule: column_value.cases) simp_all

lemma date_or_null_absent: "date_or_null new_Date None = None" "date_or_null new_Date (Some []) = None"
  by (simp_all add: date_or_null_def)

lemma files_PUT_rejects:
  "(\<exists>e. files_PUT new_Date store body = Inl e) =
     (\<not> list_ex (\<lambda>r. id' r = put_id body) (files store) \<or>
      date_or_null new_Date (put_uploadedAt body) = Some InvalidDate \<or>
      date_or_null new_Date (put_processedAt body) = Some InvalidDate)"
  by (simp add: files_PUT_def Let_def)

text \<open>
  Claim C10, as amended. A \<open>PUT /api/files\<close> is rejected with status 500, leaving every
  row as it was, exactly when its id is not the id of a stored row or a time stamp it
  gives is not a date. Every other \<open>PUT\<close> succeeds, and afterwards the row's
  \<open>uploadedAt\<close> is the date the body gave for \<open>uploadedAt\<close> and null when the body left it
  out (or gave an empty text), whatever the row held before; the same for
  \<open>processedAt\<close>. So a stored time stamp is kept by an update only when the body gives
  the same instant again.
\<close>

theorem put_nulls_absent_timestamps:
  assumes "i < length (files store)"
    and "id' (files store ! i) = put_id body"
  shows "(case files_PUT new_Date store body of
            Inl e \<Rightarrow>
              e = ApiError 500 ''Failed to update file'' \<and>
              (date_or_null new_Date (put_uploadedAt body) = Some InvalidDate \<or>
               date_or_null new_Date (put_processedAt body) = Some InvalidDate)
          | Inr store' \<Rightarrow>
              date_or_null new_Date (put_uploadedAt body) \<noteq> Some InvalidDate \<and>
              date_or_null new_Date (put_processedAt body) \<noteq> Some InvalidDate \<and>
              length (files store') = length (files store) \<and>
              uploadedAt (files store' ! i) =
                column_value (date_or_null new_Date (put_uploadedAt body)) \<and>
              processedAt (files store' ! i) =
                column_value (date_or_null new_Date (put_processedAt body)) \<and>
              (put_uploadedAt body = None \<longrightarrow> uploadedAt (files store' ! i) = None) \<and>
              (put_processedAt body = None \<longrightarrow> processedAt (files store' ! i) = None) \<and>
              (uploadedAt (files store ! i) = Some t \<longrightarrow>
                 (uploadedAt (files store' ! i) = uploadedAt (files store ! i)) =
                 (date_or_null new_Date (put_uploadedAt body) = Some (Date t))) \<and>
              (processedAt (files store ! i) = Some u \<longrightarrow>
                 (processedAt (files store' ! i) = processedAt (files store ! i)) =
                 (date_or_null new_Date (put_processedAt body) = Some (Date u)))) \<and>
    ((\<exists>e. files_PUT new_Date store body = Inl e) =
       (date_or_null new_Date (put_uploadedAt body) = Some InvalidDate \<or>
        date_or_null new_Date (put_processedAt body) = Some InvalidDate))"
proof -
  let ?up = "date_or_null new_Date (put_uploadedAt body)"
  let ?pr = "date_or_null new_Date (put_processedAt body)"
  have ex: "list_ex (\<lambda>r. id' r = put_id body) (files store)"
    using assms by (rule nth_id_ex)
  have rej: "(\<exists>e. files_PUT new_Date store body = Inl e) =
      (?up = Some InvalidDate \<or> ?pr = Some InvalidDate)"
    using ex by (simp add: files_PUT_rejects)
  show ?thesis
  proof (cases "?up = Some InvalidDate \<or> ?pr = Some InvalidDate")
    case True
    then have "files_PUT new_Date store body = Inl (ApiError 500 ''Failed to update file'')"
      by (auto simp: files_PUT_def Let_def)
    then show ?thesis using True rej by simp
  next
    case False
    then have put: "files_PUT new_Date store body =
        Inr (store\<lparr>files := map (\<lambda>r. if id' r = put_id body then apply_update body ?up ?pr r else r)
                               (files store)\<rparr>)"
      using ex by (simp add: files_PUT_def Let_def)
    have up: "uploadedAt (apply_update body a b r) = column_value a" for a b r
      by (simp add: apply_update_def)
    have pr: "processedAt (apply_update body a b r) = column_value b" for a b r
      by (simp add: apply_update_def)
    show ?thesis
      using assms False rej
      by (simp add: put up pr column_value_kept date_or_null_absent)
  qed
qed

theorem put_nulls_absent_timestamps_witness:
  "uploadedAt (files store_1 ! 0) = Some 1755864060000 \<and>
   put_uploadedAt processed_body = None \<and>
   (case files_PUT scenario_Date store_1 processed_body of
      Inl e \<Rightarrow> False
    | Inr store' \<Rightarrow>
        processedAt (files store' ! 0) = Some 1755864120000 \<and>
        uploadedAt (files store' ! 0) = None)"
proof -
  have i: "0 < length (files store_1)" by (simp add: store_1_def)
  have k: "id' (files store_1 ! 0) = put_id processed_body"
    by (simp add: store_1_def row_a_def processed_body_def put_processed_def mark_processed_def
        mark_uploaded_def meta_a_def)
  have before: "uploadedAt (files store_1 ! 0) = Some 1755864060000"
    by (simp add: store_1_def row_a_def)
  have body: "put_uploadedAt processed_body = None"
    "put_processedAt processed_body = Some ''2025-08-22T12:02:00.000Z''"
    by (simp_all add: processed_body_def put_processed_def mark_processed_def)
  have dates: "date_or_null scenario_Date None = None"
    "date_or_null scenario_Date (Some ''2025-08-22T12:02:00.000Z'') = Some (Date 1755864120000)"
    by (simp_all add: date_or_null_def scenario_Date_def)
  show ?thesis
    using put_nulls_absent_timestamps[OF i k, of scenario_Date] before
    by (cases "files_PUT scenario_Date store_1 processed_body") (simp_all add: body dates)
qed

text \<open>
  Claim C10 as stated fails: a \<open>PUT\<close> for the stored \<open>a.txt\<close> that leaves \<open>uploadedAt\<close> out
  and gives a text that is not a date for \<open>processedAt\<close> is answered with status 500,
  and the stored \<open>uploadedAt\<close> is not overwritten with null.
\<close>

theorem rejected_put_counterexample:
  "put_uploadedAt bad_date_body = None \<and>
   id' (files store_1 ! 0) = put_id bad_date_body \<and>
   uploadedAt (files store_1 ! 0) = Some 1755864060000 \<and>
   files_PUT scenario_Date store_1 bad_date_body = Inl (ApiError 500 ''Failed to update file'')"
  by (simp add: bad_date_body_def store_1_def row_a_def files_PUT_def date_or_null_def
      scenario_Date_def)

end
